theory Spec2Isabelle
  imports Main "HOL-Library.Word"
begin

section \<open>Python values\<close>

text \<open>
  A Python \<open>str\<close> is a sequence of Unicode code points, so a string is a list of
  natural numbers; \<open>lit\<close> turns an ASCII literal into that representation.
  \<open>bytes\<close> are lists of octets.
\<close>

type_synonym pystr = "nat list"

type_synonym bytes = "8 word list"

definition lit :: "string \<Rightarrow> pystr" where
  "lit cs = map of_char cs"

text \<open>
  \<open>str.isspace\<close>, \<open>str.strip()\<close> and the class \<open>\s\<close> of a \<open>str\<close> pattern all use
  CPython's one whitespace table: U+0009..U+000D, U+001C..U+0020, U+0085, U+00A0, U+1680,
  U+2000..U+200A, U+2028, U+2029, U+202F, U+205F, U+3000.
\<close>

definition is_space :: "nat \<Rightarrow> bool" where
  "is_space c \<longleftrightarrow>
     (9 \<le> c \<and> c \<le> 13) \<or> (28 \<le> c \<and> c \<le> 32) \<or> c = 133 \<or> c = 160 \<or> c = 5760 \<or>
     (8192 \<le> c \<and> c \<le> 8202) \<or> c = 8232 \<or> c = 8233 \<or> c = 8239 \<or> c = 8287 \<or> c = 12288"

text \<open>\<open>s.strip()\<close>: leading and trailing whitespace removed.\<close>

definition strip :: "pystr \<Rightarrow> pystr" where
  "strip s = rev (dropWhile is_space (rev (dropWhile is_space s)))"

text \<open>\<open>sub in s\<close> on strings: \<open>sub\<close> occurs in \<open>s\<close> as a contiguous block.\<close>

fun starts_with :: "pystr \<Rightarrow> pystr \<Rightarrow> bool" where
  "starts_with s [] = True"
| "starts_with [] (p # ps) = False"
| "starts_with (c # cs) (p # ps) = (c = p \<and> starts_with cs ps)"

fun contains :: "pystr \<Rightarrow> pystr \<Rightarrow> bool" where
  "contains [] sub = (sub = [])"
| "contains (c # cs) sub = (starts_with (c # cs) sub \<or> contains cs sub)"

text \<open>
  \<open>s.rsplit(sep, 1)[0]\<close>: what stands before the last occurrence of \<open>sep\<close>, the whole
  string when \<open>sep\<close> does not occur. \<open>s.split(sep)[-1]\<close>: what stands after the last
  occurrence, the whole string when there is none.
\<close>

definition rsplit1_head :: "nat \<Rightarrow> pystr \<Rightarrow> pystr" where
  "rsplit1_head sep s =
     (if sep \<in> set s then rev (tl (dropWhile (\<lambda>c. c \<noteq> sep) (rev s))) else s)"

definition split_last :: "nat \<Rightarrow> pystr \<Rightarrow> pystr" where
  "split_last sep s = rev (takeWhile (\<lambda>c. c \<noteq> sep) (rev s))"

text \<open>
  Exceptions are values: a class and the text \<open>str(e)\<close>. \<open>ClientError\<close> carries
  \<open>err.response['Error']['Message']\<close>. \<open>HTTPError\<close> carries the status code and the
  response body: \<open>JsonBody m\<close> when \<open>e.response.json()\<close> is an object, \<open>m\<close> its
  \<open>message\<close> entry if it has one, and \<open>RawBody t\<close> with the raw text \<open>t\<close> otherwise.
  Every class here derives from \<open>Exception\<close>; \<open>HTTPError\<close> and \<open>Timeout\<close> derive
  from \<open>RequestException\<close>.
\<close>

datatype http_body = JsonBody "pystr option" | RawBody pystr

datatype exn_class =
    ValueError
  | KeyError
  | IndexError
  | ClientError pystr
  | HTTPError nat http_body
  | Timeout
  | RequestException
  | OtherException

datatype exn = Exn exn_class pystr

fun exn_str :: "exn \<Rightarrow> pystr" where
  "exn_str (Exn c msg) = msg"

text \<open>\<open>try: body except Exception as e: handler(e)\<close>.\<close>

definition try_except :: "exn + 'a \<Rightarrow> (exn \<Rightarrow> exn + 'a) \<Rightarrow> exn + 'a" where
  "try_except body handler = (case body of Inl e \<Rightarrow> handler e | Inr v \<Rightarrow> Inr v)"

section \<open>Session initialisation\<close>

text \<open>
  Lines 34 to 36 of \<open>app.py\<close>: a history of more than 50 entries is replaced by the slice
  \<open>chat_history[-50:]\<close>.
\<close>

definition limit_chat_history :: "'a list \<Rightarrow> 'a list" where
  "limit_chat_history chat_history =
     (if length chat_history > 50
      then drop (length chat_history - 50) chat_history
      else chat_history)"

section \<open>Helpers\<close>

text \<open>
  \<open>sanitize_filename\<close>. The class \<open>[^A-Za-z0-9\s\-\(\)\[\]]\<close> is the complement of
  \<open>name_char\<close>; each such character becomes an underscore (code point 95). Then every
  maximal run of whitespace becomes one space (code point 32), and the result is stripped.
\<close>

definition name_char :: "nat \<Rightarrow> bool" where
  "name_char c \<longleftrightarrow>
     (65 \<le> c \<and> c \<le> 90) \<or> (97 \<le> c \<and> c \<le> 122) \<or> (48 \<le> c \<and> c \<le> 57) \<or>
     is_space c \<or> c = 45 \<or> c = 40 \<or> c = 41 \<or> c = 91 \<or> c = 93"

definition sub_invalid :: "pystr \<Rightarrow> pystr" where
  "sub_invalid s = map (\<lambda>c. if name_char c then c else 95) s"

function collapse_ws :: "pystr \<Rightarrow> pystr" where
  "collapse_ws [] = []"
| "collapse_ws (c # cs) =
     (if is_space c then 32 # collapse_ws (dropWhile is_space cs) else c # collapse_ws cs)"
  by pat_completeness auto
termination
  by (relation "measure length") (auto simp: length_dropWhile_le less_Suc_eq_le)

definition sanitize_filename :: "pystr \<Rightarrow> pystr" where
  "sanitize_filename filename =
     (let name_without_ext = rsplit1_head 46 filename;
          sanitized = sub_invalid name_without_ext
      in strip (collapse_ws sanitized))"

text \<open>
  \<open>decode_unicode_text\<close>. The codec call \<open>bytes(text, "utf-8").decode("unicode_escape")\<close>
  is the standard library's; it is the parameter \<open>codec\<close>, which returns the
  decoded string or the exception the codec raises. The substring tested for is a
  backslash (92) followed by \<open>u\<close> (117).
\<close>

definition decode_unicode_text :: "(pystr \<Rightarrow> exn + pystr) \<Rightarrow> pystr \<Rightarrow> exn + pystr" where
  "decode_unicode_text codec text =
     try_except
       (if contains text [92, 117] then codec text else Inr text)
       (\<lambda>e. Inr text)"

text \<open>
  A string is whitespace-normal when its only whitespace is single spaces (used to state
  what \<open>collapse_ws\<close> achieves).
\<close>

fun ws_norm :: "pystr \<Rightarrow> bool" where
  "ws_norm [] = True"
| "ws_norm [c] = (is_space c \<longrightarrow> c = 32)"
| "ws_norm (c # d # cs) = ((is_space c \<longrightarrow> c = 32 \<and> \<not> is_space d) \<and> ws_norm (d # cs))"

section \<open>Messages and content blocks\<close>

text \<open>
  An uploaded file as Streamlit hands it over: its name, its size in bytes, its declared
  MIME type and its content (what \<open>read()\<close> returns after \<open>seek(0)\<close>).
\<close>

record uploaded_file =
  file_name :: pystr
  file_size :: nat
  file_type :: pystr
  file_data :: bytes

text \<open>
  The \<open>toolUse\<close> block of a backend response; its \<open>input\<close> is a JSON object, here a list
  of key and value pairs read with \<open>map_of\<close>.
\<close>

record tool_use =
  toolUseId :: pystr
  tool_name :: pystr
  tool_input :: "(pystr \<times> pystr) list"

text \<open>
  A tool result holds one content entry, \<open>{"json": {"result": s}}\<close> or \<open>{"text": s}\<close>,
  and a \<open>status\<close> key that may be absent.
\<close>

datatype result_content = JsonResult pystr | TextResult pystr

record tool_result =
  result_toolUseId :: pystr
  result_content :: "result_content list"
  result_status :: "pystr option"

datatype content_block =
    TextBlock pystr
  | DocumentBlock pystr pystr bytes
  | ImageBlock pystr bytes
  | ToolUseBlock tool_use
  | ToolResultBlock tool_result

record message =
  role :: pystr
  content :: "content_block list"

text \<open>An entry of \<open>chat_history\<close>: a dictionary with a role and, possibly, a text.\<close>

record turn =
  turn_role :: pystr
  turn_text :: "pystr option"

record tool_spec =
  spec_name :: pystr
  spec_description :: pystr
  spec_required :: "pystr list"

definition tool_config :: "tool_spec list" where
  "tool_config =
     [\<lparr>spec_name = lit ''government_scheme_info'',
       spec_description = lit (''MANDATORY: Always use this tool for ANY question about: '' @
         ''government schemes, budgets, MSME, subsidies, grants, policies, ministries, or '' @
         ''government programs. Use this tool FIRST before analyzing any uploaded documents '' @
         ''when the question relates to government topics. Do not attempt to answer '' @
         ''government-related questions from uploaded documents alone.''),
       spec_required = [lit ''query'']\<rparr>]"

text \<open>
  The arguments of one \<open>converse\<close> call. \<open>system\<close> is \<open>None\<close> when the argument is left
  out, and \<open>Some p\<close> for \<open>[{"text": p}]\<close>, where \<open>p\<close> is what the environment holds.
\<close>

record request =
  modelId :: "pystr option"
  messages :: "message list"
  system :: "pystr option option"
  toolConfig :: "tool_spec list"

record response =
  output_message :: message
  stopReason :: pystr

section \<open>Configuration, services and the world\<close>

text \<open>The module's configuration, read from the environment: each value may be unset.\<close>

record config =
  SARVAM_API_KEY :: "pystr option"
  BEDROCK_AGENT_ID :: "pystr option"
  BEDROCK_AGENT_ALIAS_ID :: "pystr option"
  BEDROCK_MODEL_ID :: "pystr option"
  SYSTEM_PROMPT :: "pystr option"

text \<open>\<open>not v\<close> for a value that is \<open>None\<close> or a string.\<close>

definition falsy :: "pystr option \<Rightarrow> bool" where
  "falsy v \<longleftrightarrow> v = None \<or> v = Some []"

text \<open>
  The external services, each a function of an abstract outside world \<open>'w\<close> that returns a
  result or the exception raised, and the next world:
  \<^item> \<open>converse\<close>: \<open>bedrock_client.converse\<close>;
  \<^item> \<open>new_client\<close>: \<open>boto3.client(service_name)\<close>;
  \<^item> \<open>invoke_agent\<close>: \<open>invoke_agent\<close> on the query followed by the loop that decodes
    the chunks of the completion stream, giving the chunks' texts;
  \<^item> \<open>stt_post\<close>: the transcription request on the file's content, \<open>raise_for_status\<close>
    and \<open>response.json()\<close>, giving the \<open>transcript\<close> entry if there is one;
  \<^item> \<open>tts_post\<close>: the synthesis request on text and language, \<open>raise_for_status\<close> and
    \<open>response.json()\<close>, giving the \<open>audios\<close> list (empty when absent);
  \<^item> \<open>json_dumps\<close>, \<open>b64decode\<close>, \<open>unicode_escape\<close>: the standard library's
    \<open>json.dumps\<close> on a dictionary of strings, \<open>base64.b64decode\<close> and the
    \<open>unicode_escape\<close> codec.
\<close>

record 'w services =
  converse :: "request \<Rightarrow> 'w \<Rightarrow> (exn + response) \<times> 'w"
  new_client :: "pystr \<Rightarrow> 'w \<Rightarrow> (exn + unit) \<times> 'w"
  invoke_agent :: "pystr \<Rightarrow> 'w \<Rightarrow> (exn + pystr list) \<times> 'w"
  stt_post :: "bytes \<Rightarrow> 'w \<Rightarrow> (exn + pystr option) \<times> 'w"
  tts_post :: "pystr \<Rightarrow> pystr \<Rightarrow> 'w \<Rightarrow> (exn + pystr list) \<times> 'w"
  json_dumps :: "(pystr \<times> pystr) list \<Rightarrow> pystr"
  b64decode :: "pystr \<Rightarrow> exn + bytes"
  unicode_escape :: "pystr \<Rightarrow> exn + pystr"

text \<open>
  What the program can change: the outside world, the files on disk, what it has shown on
  the page, and a record of the calls it has made, kept to count them: every
  \<open>converse\<close> call, every run of the tool path of \<open>generate_message\<close> for a
  \<open>toolUse\<close> entry, and every \<open>invoke_agent\<close> call.
\<close>

datatype call =
    ConverseCall request
  | ToolDispatch tool_use
  | InvokeAgentCall pystr

datatype ui_event =
    Markdown pystr pystr
  | Audio bytes
  | Warning pystr
  | Error pystr

record 'w world =
  ext :: 'w
  files :: "pystr \<Rightarrow> bytes option"
  shown :: "ui_event list"
  calls :: "call list"

definition note_call :: "call \<Rightarrow> 'w world \<Rightarrow> 'w world" where
  "note_call c w = w\<lparr>calls := calls w @ [c]\<rparr>"

definition show_ui :: "ui_event \<Rightarrow> 'w world \<Rightarrow> 'w world" where
  "show_ui u w = w\<lparr>shown := shown w @ [u]\<rparr>"

text \<open>Running a service in the current world.\<close>

definition run :: "('w \<Rightarrow> 'a \<times> 'w) \<Rightarrow> 'w world \<Rightarrow> 'a \<times> 'w world" where
  "run f w = (case f (ext w) of (r, x) \<Rightarrow> (r, w\<lparr>ext := x\<rparr>))"

section \<open>The tool\<close>

text \<open>
  \<open>get_government_scheme_info\<close>. The client is made outside the \<open>try\<close>, so its
  exception leaves the function; whatever \<open>invoke_agent\<close> or the chunk loop raises is
  caught and answered with an \<open>error\<close> dictionary.
\<close>

definition get_government_scheme_info ::
  "config \<Rightarrow> 'w services \<Rightarrow> pystr \<Rightarrow> 'w world \<Rightarrow> (exn + (pystr \<times> pystr) list) \<times> 'w world" where
  "get_government_scheme_info cfg svc query w =
     (if falsy (BEDROCK_AGENT_ID cfg) \<or> falsy (BEDROCK_AGENT_ALIAS_ID cfg)
      then (Inr [(lit ''error'', lit ''Bedrock agent configuration missing'')], w)
      else
        (case run (new_client svc (lit ''bedrock-agent-runtime'')) w of
           (Inl e, w1) \<Rightarrow> (Inl e, w1)
         | (Inr bedrock_agent_client, w1) \<Rightarrow>
             (case run (invoke_agent svc query) (note_call (InvokeAgentCall query) w1) of
                (Inl e, w2) \<Rightarrow>
                  (Inr [(lit ''error'',
                         lit ''Failed to retrieve information due to internal error.'')], w2)
              | (Inr chunks, w2) \<Rightarrow>
                  (let result = concat chunks
                   in if result = []
                      then (Inr [(lit ''error'',
                                  lit ''No relevant information found for your query.'')], w2)
                      else (Inr [(lit ''detail'', result)], w2)))))"

section \<open>The turn\<close>

text \<open>
  The content blocks of \<open>generate_message\<close> (lines 187 to 214). The two limits are the
  floats \<open>4.5 * 1024 * 1024 = 4718592.0\<close> and \<open>3.75 * 1024 * 1024 = 3932160.0\<close>, both
  exact, and Python compares an integer size with them exactly. \<open>lower\<close> maps the
  capital letters A to Z only: \<open>str.lower()\<close> also maps capitals outside ASCII, none of
  them to a letter of the five accepted formats, so the models differ only in the text of
  the error for such a format.
\<close>

definition lower :: "pystr \<Rightarrow> pystr" where
  "lower s = map (\<lambda>c. if 65 \<le> c \<and> c \<le> 90 then c + 32 else c) s"

fun document_blocks :: "uploaded_file list \<Rightarrow> exn + content_block list" where
  "document_blocks [] = Inr []"
| "document_blocks (doc # docs) =
     (if file_size doc > 4718592
      then Inl (Exn ValueError
                  (lit ''Document '' @ [39] @ file_name doc @ [39] @ lit '' exceeds 4.5MB limit.''))
      else
        (let doc_format = lower (split_last 46 (file_name doc))
         in if doc_format \<notin> set [lit ''txt'', lit ''pdf'', lit ''docx'', lit ''csv'', lit ''json'']
            then Inl (Exn ValueError (lit ''Unsupported document format: '' @ doc_format))
            else
              (let doc_name = sanitize_filename (file_name doc)
               in case document_blocks docs of
                    Inl e \<Rightarrow> Inl e
                  | Inr blocks \<Rightarrow> Inr (DocumentBlock doc_name doc_format (file_data doc) # blocks))))"

fun image_blocks :: "uploaded_file list \<Rightarrow> exn + content_block list" where
  "image_blocks [] = Inr []"
| "image_blocks (img # imgs) =
     (if file_size img > 3932160
      then Inl (Exn ValueError
                  (lit ''Image '' @ [39] @ file_name img @ [39] @ lit '' exceeds 3.75MB limit.''))
      else
        (let img_format = split_last 47 (file_type img)
         in case image_blocks imgs of
              Inl e \<Rightarrow> Inl e
            | Inr blocks \<Rightarrow> Inr (ImageBlock img_format (file_data img) # blocks)))"

definition build_content_blocks ::
  "pystr \<Rightarrow> uploaded_file list \<Rightarrow> uploaded_file list \<Rightarrow> exn + content_block list" where
  "build_content_blocks input_text documents images =
     (case document_blocks (take 5 documents) of
        Inl e \<Rightarrow> Inl e
      | Inr doc_blocks \<Rightarrow>
          (case image_blocks (take 20 images) of
             Inl e \<Rightarrow> Inl e
           | Inr img_blocks \<Rightarrow> Inr (TextBlock input_text # doc_blocks @ img_blocks)))"

text \<open>
  The tool path of \<open>generate_message\<close> (lines 247 to 258) for one \<open>toolUse\<close> entry:
  inside the \<open>try\<close>, \<open>tool['input']['query']\<close> raises \<open>KeyError\<close> when the key is
  missing, then the tool runs and its dictionary is packed as JSON text; the handler packs
  the text of any exception with the status \<open>error\<close>.
\<close>

definition dispatch_tool ::
  "config \<Rightarrow> 'w services \<Rightarrow> tool_use \<Rightarrow> 'w world \<Rightarrow> (exn + tool_result) \<times> 'w world" where
  "dispatch_tool cfg svc tool w =
     (case
        (case map_of (tool_input tool) (lit ''query'') of
           None \<Rightarrow>
             (Inl (Exn KeyError ([39] @ lit ''query'' @ [39])), note_call (ToolDispatch tool) w)
         | Some query \<Rightarrow>
             (case get_government_scheme_info cfg svc query (note_call (ToolDispatch tool) w) of
                (Inl e, w1) \<Rightarrow> (Inl e, w1)
              | (Inr result, w1) \<Rightarrow>
                  (Inr \<lparr>result_toolUseId = toolUseId tool,
                        result_content =
                          [JsonResult (lit ''Tool Result: '' @ json_dumps svc result)],
                        result_status = None\<rparr>, w1)))
      of (body, w1) \<Rightarrow>
        (try_except body
           (\<lambda>err. Inr \<lparr>result_toolUseId = toolUseId tool,
                        result_content = [TextResult (lit ''Tool Result: '' @ exn_str err)],
                        result_status = Some (lit ''error'')\<rparr>),
         w1))"

text \<open>The history as backend messages: entries without a text are left out.\<close>

primrec history_messages :: "turn list \<Rightarrow> message list" where
  "history_messages [] = []"
| "history_messages (m # ms) =
     (case turn_text m of
        None \<Rightarrow> history_messages ms
      | Some t \<Rightarrow> \<lparr>role = turn_role m, content = [TextBlock t]\<rparr> # history_messages ms)"

text \<open>
  The loop over the content of a response that stopped for tool use (lines 243 to 272).
  \<open>msgs\<close> is the message list with the response's message already appended.
  \<open>tool_round_trip\<close> is the body run for a \<open>toolUse\<close> entry named
  \<open>government_scheme_info\<close> (lines 247 to 272): the tool is dispatched, its result is
  sent in a second \<open>converse\<close> call without a system prompt, and the message of that call
  is returned from inside the loop. When the loop ends without such an entry, the first
  response's message is returned (line 274).
\<close>

definition tool_round_trip ::
  "config \<Rightarrow> 'w services \<Rightarrow> pystr option \<Rightarrow> message list \<Rightarrow> tool_use \<Rightarrow> 'w world \<Rightarrow>
   (exn + message) \<times> 'w world" where
  "tool_round_trip cfg svc model_id msgs tool w =
     (case dispatch_tool cfg svc tool w of
        (Inl e, w1) \<Rightarrow> (Inl e, w1)
      | (Inr tool_result, w1) \<Rightarrow>
          (let tool_result_message =
                 \<lparr>role = lit ''user'', content = [ToolResultBlock tool_result]\<rparr>;
               req = \<lparr>modelId = model_id, messages = msgs @ [tool_result_message],
                      system = None, toolConfig = tool_config\<rparr>
           in case run (converse svc req) (note_call (ConverseCall req) w1) of
                (Inl e, w2) \<Rightarrow> (Inl e, w2)
              | (Inr response, w2) \<Rightarrow> (Inr (output_message response), w2)))"

fun tool_requests_loop ::
  "config \<Rightarrow> 'w services \<Rightarrow> pystr option \<Rightarrow> message list \<Rightarrow> message \<Rightarrow>
   content_block list \<Rightarrow> 'w world \<Rightarrow> (exn + message) \<times> 'w world" where
  "tool_requests_loop cfg svc model_id msgs out [] w = (Inr out, w)"
| "tool_requests_loop cfg svc model_id msgs out (ToolUseBlock tool # tool_requests) w =
     (if tool_name tool = lit ''government_scheme_info''
      then tool_round_trip cfg svc model_id msgs tool w
      else tool_requests_loop cfg svc model_id msgs out tool_requests w)"
| "tool_requests_loop cfg svc model_id msgs out (tool_request # tool_requests) w =
     tool_requests_loop cfg svc model_id msgs out tool_requests w"

text \<open>
  \<open>generate_message\<close>. The model identifier and the history are arguments (the caller
  passes \<open>BEDROCK_MODEL_ID\<close> and the session's history).
\<close>

definition first_request ::
  "config \<Rightarrow> pystr option \<Rightarrow> turn list \<Rightarrow> content_block list \<Rightarrow> request" where
  "first_request cfg model_id chat_history content_blocks =
     \<lparr>modelId = model_id,
      messages = history_messages chat_history @
                 [\<lparr>role = lit ''user'', content = content_blocks\<rparr>],
      system = Some (SYSTEM_PROMPT cfg),
      toolConfig = tool_config\<rparr>"

definition generate_message ::
  "config \<Rightarrow> 'w services \<Rightarrow> pystr option \<Rightarrow> pystr \<Rightarrow> uploaded_file list \<Rightarrow>
   uploaded_file list \<Rightarrow> turn list \<Rightarrow> 'w world \<Rightarrow> (exn + message) \<times> 'w world" where
  "generate_message cfg svc model_id input_text documents images chat_history w =
     (if input_text = [] \<or> strip input_text = []
      then (Inl (Exn ValueError (lit ''Input text cannot be empty'')), w)
      else
        (case build_content_blocks input_text documents images of
           Inl e \<Rightarrow> (Inl e, w)
         | Inr content_blocks \<Rightarrow>
             (let req = first_request cfg model_id chat_history content_blocks
              in case run (converse svc req) (note_call (ConverseCall req) w) of
                   (Inl e, w1) \<Rightarrow> (Inl e, w1)
                 | (Inr response, w1) \<Rightarrow>
                     (let out = output_message response;
                          stop_reason = stopReason response;
                          msgs = messages req @ [out]
                      in if stop_reason = lit ''tool_use''
                         then tool_requests_loop cfg svc model_id msgs out (content out) w1
                         else (Inr out, w1)))))"

section \<open>Speech\<close>

text \<open>The decimal digits of a status code, as an f-string prints it.\<close>

fun digits :: "nat \<Rightarrow> pystr" where
  "digits n = (if n < 10 then [48 + n] else digits (n div 10) @ [48 + n mod 10])"

text \<open>
  \<open>transcribe_audio\<close>. \<open>transcribe_except\<close> is its chain of handlers, in the source's
  order: each turns the exception caught into the one raised in its place.
\<close>

fun transcribe_except :: "exn \<Rightarrow> exn" where
  "transcribe_except (Exn (HTTPError status_code body) msg) =
     Exn OtherException
       (lit ''HTTP error during audio transcription: '' @ digits status_code @ lit '' - '' @
        (case body of
           JsonBody None \<Rightarrow> lit ''Unknown error''
         | JsonBody (Some error_detail) \<Rightarrow> error_detail
         | RawBody response_text \<Rightarrow> response_text))"
| "transcribe_except (Exn Timeout msg) =
     Exn OtherException (lit ''Audio transcription timed out after 45 seconds'')"
| "transcribe_except (Exn RequestException msg) =
     Exn OtherException (lit ''Network error during audio transcription: '' @ msg)"
| "transcribe_except (Exn c msg) =
     (if contains msg (lit ''Audio transcription'') \<or> contains msg (lit ''HTTP error'')
      then Exn c msg
      else Exn OtherException (lit ''Unexpected error during audio transcription: '' @ msg))"

definition transcribe_audio ::
  "config \<Rightarrow> 'w services \<Rightarrow> pystr \<Rightarrow> 'w world \<Rightarrow> (exn + pystr) \<times> 'w world" where
  "transcribe_audio cfg svc file_path w =
     (if falsy (SARVAM_API_KEY cfg)
      then (Inl (Exn OtherException (lit ''SARVAM API key not configured'')), w)
      else
        (case files w file_path of
           None \<Rightarrow> (Inl (Exn OtherException (lit ''Audio file not found: '' @ file_path)), w)
         | Some f \<Rightarrow>
             (case run (stt_post svc f) w of
                (Inl e, w1) \<Rightarrow> (Inl (transcribe_except e), w1)
              | (Inr result, w1) \<Rightarrow>
                  (let transcript = (case result of None \<Rightarrow> [] | Some t \<Rightarrow> t)
                   in if transcript = []
                      then (Inl (transcribe_except
                                   (Exn OtherException
                                      (lit ''Empty transcript received from SARVAM API''))), w1)
                      else (Inr transcript, w1)))))"

definition text_to_speech ::
  "config \<Rightarrow> 'w services \<Rightarrow> pystr \<Rightarrow> pystr \<Rightarrow> 'w world \<Rightarrow> (exn + bytes) \<times> 'w world" where
  "text_to_speech cfg svc text language w =
     (if falsy (SARVAM_API_KEY cfg)
      then (Inl (Exn OtherException (lit ''SARVAM API key not configured'')), w)
      else
        (case run (tts_post svc text language) w of
           (Inl e, w1) \<Rightarrow> (Inl e, w1)
         | (Inr audios, w1) \<Rightarrow>
             (case audios of
                [] \<Rightarrow> (Inl (Exn OtherException (lit ''No audio data in response'')), w1)
              | audio_data # rest \<Rightarrow>
                  (if audio_data \<noteq> []
                   then (b64decode svc audio_data, w1)
                   else (Inl (Exn OtherException (lit ''No audio data in response'')), w1)))))"

section \<open>The page\<close>

text \<open>
  The transcription step of \<open>main\<close> (lines 350 to 365) for recorded audio \<open>wav\<close>.
  \<open>temp_path\<close> is the name the system gives the temporary file. \<open>transcription_try\<close>
  is the body of the \<open>try\<close>: the file is written and kept (\<open>delete=False\<close>), transcribed,
  the transcript decoded, and the file unlinked. \<open>main_transcription\<close> adds the handler,
  which shows the error and returns from \<open>main\<close>: its result is \<open>None\<close> then, and the
  transcript otherwise.
\<close>

definition transcription_try ::
  "config \<Rightarrow> 'w services \<Rightarrow> pystr \<Rightarrow> bytes \<Rightarrow> 'w world \<Rightarrow> (exn + pystr) \<times> 'w world" where
  "transcription_try cfg svc temp_path wav w =
     (case transcribe_audio cfg svc temp_path (w\<lparr>files := (files w)(temp_path \<mapsto> wav)\<rparr>) of
        (Inl e, w1) \<Rightarrow> (Inl e, w1)
      | (Inr transcript, w1) \<Rightarrow>
          (case decode_unicode_text (unicode_escape svc) transcript of
             Inl e \<Rightarrow> (Inl e, w1)
           | Inr audio_prompt \<Rightarrow>
               (Inr audio_prompt, w1\<lparr>files := (files w1)(temp_path := None)\<rparr>)))"

definition main_transcription ::
  "config \<Rightarrow> 'w services \<Rightarrow> pystr \<Rightarrow> bytes \<Rightarrow> 'w world \<Rightarrow> pystr option \<times> 'w world" where
  "main_transcription cfg svc temp_path wav w =
     (case transcription_try cfg svc temp_path wav w of
        (Inl e, w1) \<Rightarrow>
          (None, show_ui (Error (lit ''Audio transcription failed: '' @ exn_str e)) w1)
      | (Inr audio_prompt, w1) \<Rightarrow> (Some audio_prompt, w1))"

text \<open>The session state of the page.\<close>

record session_state =
  chat_history :: "turn list"
  last_uploaded_docs :: "uploaded_file list"
  last_uploaded_images :: "uploaded_file list"
  enable_tts :: bool
  tts_language :: pystr

text \<open>\<open>output_message['content'][0]['text']\<close>.\<close>

definition first_text :: "message \<Rightarrow> exn + pystr" where
  "first_text m =
     (case content m of
        [] \<Rightarrow> Inl (Exn IndexError (lit ''list index out of range''))
      | TextBlock t # rest \<Rightarrow> Inr t
      | other # rest \<Rightarrow> Inl (Exn KeyError ([39] @ lit ''text'' @ [39])))"

text \<open>
  The turn of \<open>main\<close> (lines 379 to 408), in three parts. \<open>turn_reply\<close> is lines 385 to
  393: the prompt is shown, the client made, \<open>generate_message\<close> called and the text of
  its first content block shown. \<open>speak_reply\<close> is lines 395 to 400: the reply is spoken
  when speech is enabled, and a failure of that is a warning. \<open>turn_try\<close> is the body of
  the outer \<open>try\<close>, which ends by appending the two turns to the history.
\<close>

definition turn_reply ::
  "config \<Rightarrow> 'w services \<Rightarrow> pystr \<Rightarrow> uploaded_file list \<Rightarrow> uploaded_file list \<Rightarrow>
   session_state \<Rightarrow> 'w world \<Rightarrow> (exn + pystr) \<times> 'w world" where
  "turn_reply cfg svc prompt documents images s w =
     (case run (new_client svc (lit ''bedrock-runtime'')) (show_ui (Markdown (lit ''user'') prompt) w) of
        (Inl e, w1) \<Rightarrow> (Inl e, w1)
      | (Inr bedrock_client, w1) \<Rightarrow>
          (case generate_message cfg svc (BEDROCK_MODEL_ID cfg) prompt documents images
                  (chat_history s) w1 of
             (Inl e, w2) \<Rightarrow> (Inl e, w2)
           | (Inr out, w2) \<Rightarrow>
               (case first_text out of
                  Inl e \<Rightarrow> (Inl e, w2)
                | Inr assistant_response \<Rightarrow>
                    (Inr assistant_response,
                     show_ui (Markdown (lit ''assistant'') assistant_response) w2))))"

definition speak_reply ::
  "config \<Rightarrow> 'w services \<Rightarrow> pystr \<Rightarrow> session_state \<Rightarrow> 'w world \<Rightarrow> 'w world" where
  "speak_reply cfg svc assistant_response s w =
     (if enable_tts s
      then
        (case text_to_speech cfg svc assistant_response (tts_language s) w of
           (Inl e, w1) \<Rightarrow> show_ui (Warning (lit ''TTS failed: '' @ exn_str e)) w1
         | (Inr audio_data, w1) \<Rightarrow> show_ui (Audio audio_data) w1)
      else w)"

definition turn_try ::
  "config \<Rightarrow> 'w services \<Rightarrow> pystr \<Rightarrow> uploaded_file list \<Rightarrow> uploaded_file list \<Rightarrow>
   session_state \<Rightarrow> 'w world \<Rightarrow> (exn + session_state) \<times> 'w world" where
  "turn_try cfg svc prompt documents images s w =
     (if strip prompt = []
      then (Inr s, show_ui (Warning (lit ''Please enter a prompt.'')) w)
      else
        (case turn_reply cfg svc prompt documents images s w of
           (Inl e, w1) \<Rightarrow> (Inl e, w1)
         | (Inr assistant_response, w1) \<Rightarrow>
             (Inr (s\<lparr>chat_history := chat_history s @
                      [\<lparr>turn_role = lit ''user'', turn_text = Some prompt\<rparr>,
                       \<lparr>turn_role = lit ''assistant'', turn_text = Some assistant_response\<rparr>]\<rparr>),
              speak_reply cfg svc assistant_response s w1)))"

text \<open>
  Lines 368 to 408 of \<open>main\<close>: the uploads are compared with the last ones seen, the
  prompt is the typed text or else the transcript, and the turn runs when there is a prompt
  and no upload changed. An exception of the turn is shown as an error.
\<close>

definition the_prompt :: "pystr option \<Rightarrow> pystr option \<Rightarrow> pystr" where
  "the_prompt text_input audio_prompt =
     (let from_audio =
            (case audio_prompt of
               None \<Rightarrow> []
             | Some a \<Rightarrow> if a \<noteq> [] then strip a else [])
      in case text_input of
           None \<Rightarrow> from_audio
         | Some t \<Rightarrow> if t \<noteq> [] then strip t else from_audio)"

definition main_turn ::
  "config \<Rightarrow> 'w services \<Rightarrow> uploaded_file list \<Rightarrow> uploaded_file list \<Rightarrow> pystr option \<Rightarrow>
   pystr option \<Rightarrow> session_state \<Rightarrow> 'w world \<Rightarrow> session_state \<times> 'w world" where
  "main_turn cfg svc documents images text_input audio_prompt s w =
     (let docs_changed = (documents \<noteq> last_uploaded_docs s);
          images_changed = (images \<noteq> last_uploaded_images s);
          s1 = (if docs_changed then s\<lparr>last_uploaded_docs := documents\<rparr> else s);
          s2 = (if images_changed then s1\<lparr>last_uploaded_images := images\<rparr> else s1);
          prompt = the_prompt text_input audio_prompt
      in if prompt \<noteq> [] \<and> \<not> (docs_changed \<or> images_changed)
         then
           (case turn_try cfg svc prompt documents images s2 w of
              (Inl (Exn (ClientError m) msg), w1) \<Rightarrow>
                (s2, show_ui (Error (lit ''A client error occurred: '' @ m)) w1)
            | (Inl (Exn c msg), w1) \<Rightarrow>
                (s2, show_ui (Error (lit ''Unexpected error: '' @ msg)) w1)
            | (Inr s3, w1) \<Rightarrow> (s3, w1))
         else (s2, w))"

section \<open>Notions used in the statements\<close>

text \<open>
  The \<open>toolUse\<close> entries of a content list that name the one declared tool, and the
  \<open>converse\<close> requests and tool dispatches among the calls made.
\<close>

fun known_tool_uses :: "content_block list \<Rightarrow> tool_use list" where
  "known_tool_uses [] = []"
| "known_tool_uses (ToolUseBlock tool # bs) =
     (if tool_name tool = lit ''government_scheme_info''
      then tool # known_tool_uses bs
      else known_tool_uses bs)"
| "known_tool_uses (b # bs) = known_tool_uses bs"

fun converse_calls :: "call list \<Rightarrow> request list" where
  "converse_calls [] = []"
| "converse_calls (ConverseCall req # cs) = req # converse_calls cs"
| "converse_calls (c # cs) = converse_calls cs"

fun tool_dispatches :: "call list \<Rightarrow> tool_use list" where
  "tool_dispatches [] = []"
| "tool_dispatches (ToolDispatch tool # cs) = tool # tool_dispatches cs"
| "tool_dispatches (c # cs) = tool_dispatches cs"

text \<open>What the size and format checks of the content blocks accept.\<close>

definition supported_format :: "uploaded_file \<Rightarrow> bool" where
  "supported_format doc \<longleftrightarrow>
     lower (split_last 46 (file_name doc)) \<in>
       set [lit ''txt'', lit ''pdf'', lit ''docx'', lit ''csv'', lit ''json'']"

definition valid_document :: "uploaded_file \<Rightarrow> bool" where
  "valid_document doc \<longleftrightarrow> file_size doc \<le> 4718592 \<and> supported_format doc"

definition valid_image :: "uploaded_file \<Rightarrow> bool" where
  "valid_image img \<longleftrightarrow> file_size img \<le> 3932160"

text \<open>
  Sample inputs. The sample backend answers its first call with a request for the tool
  and every later call with a text; the world it runs in counts its calls. The sample
  agent streams two chunks, the transcription service answers without a transcript, and
  the synthesis service times out.
\<close>

definition demo_doc :: "nat \<Rightarrow> uploaded_file" where
  "demo_doc n =
     \<lparr>file_name = lit ''notes.v2.TXT'', file_size = n, file_type = lit ''text/plain'',
      file_data = [1, 2, 3]\<rparr>"

definition demo_img :: "nat \<Rightarrow> uploaded_file" where
  "demo_img n =
     \<lparr>file_name = lit ''photo.png'', file_size = n, file_type = lit ''image/png'',
      file_data = [4, 5]\<rparr>"

definition demo_config :: config where
  "demo_config =
     \<lparr>SARVAM_API_KEY = Some (lit ''key''), BEDROCK_AGENT_ID = Some (lit ''agent''),
      BEDROCK_AGENT_ALIAS_ID = Some (lit ''alias''), BEDROCK_MODEL_ID = Some (lit ''model''),
      SYSTEM_PROMPT = Some (lit ''Be helpful.'')\<rparr>"

definition demo_tool :: tool_use where
  "demo_tool =
     \<lparr>toolUseId = lit ''t1'', tool_name = lit ''government_scheme_info'',
      tool_input = [(lit ''query'', lit ''MSME subsidy'')]\<rparr>"

definition demo_other_tool :: tool_use where
  "demo_other_tool =
     \<lparr>toolUseId = lit ''t2'', tool_name = lit ''weather'',
      tool_input = [(lit ''city'', lit ''Pune'')]\<rparr>"

definition demo_tool_response :: response where
  "demo_tool_response =
     \<lparr>output_message =
        \<lparr>role = lit ''assistant'',
         content = [TextBlock (lit ''Let me check.''), ToolUseBlock demo_tool]\<rparr>,
      stopReason = lit ''tool_use''\<rparr>"

definition demo_other_tool_response :: response where
  "demo_other_tool_response =
     \<lparr>output_message =
        \<lparr>role = lit ''assistant'',
         content = [TextBlock (lit ''Let me check.''), ToolUseBlock demo_other_tool]\<rparr>,
      stopReason = lit ''tool_use''\<rparr>"

definition demo_final_response :: response where
  "demo_final_response =
     \<lparr>output_message =
        \<lparr>role = lit ''assistant'', content = [TextBlock (lit ''Mudra loans.'')]\<rparr>,
      stopReason = lit ''end_turn''\<rparr>"

definition demo_services :: "nat services" where
  "demo_services =
     \<lparr>converse = (\<lambda>req n. (if n = 0 then Inr demo_tool_response else Inr demo_final_response,
                             Suc n)),
      new_client = (\<lambda>service_name n. (Inr (), n)),
      invoke_agent = (\<lambda>query n. (Inr [lit ''PM '', lit ''Mudra''], n)),
      stt_post = (\<lambda>f n. (Inr None, n)),
      tts_post = (\<lambda>text language n. (Inl (Exn Timeout (lit ''timed out'')), n)),
      json_dumps = (\<lambda>d. concat (map (\<lambda>(k, v). k @ [58] @ v) d)),
      b64decode = (\<lambda>a. Inr []),
      unicode_escape = (\<lambda>t. Inr t)\<rparr>"

definition demo_world :: "nat world" where
  "demo_world = \<lparr>ext = 0, files = (\<lambda>p. None), shown = [], calls = []\<rparr>"

definition demo_session :: session_state where
  "demo_session =
     \<lparr>chat_history = [], last_uploaded_docs = [], last_uploaded_images = [],
      enable_tts = True, tts_language = lit ''hi-IN''\<rparr>"

text \<open>
  Variants of the sample services: an agent that fails, a client that cannot be made, a
  backend that asks for a tool nobody declared, and a backend that fails.
\<close>

definition demo_agent_down :: "nat services" where
  "demo_agent_down =
     demo_services\<lparr>invoke_agent :=
       \<lambda>query n. (Inl (Exn OtherException (lit ''connection reset'')), n)\<rparr>"

definition demo_no_client :: "nat services" where
  "demo_no_client =
     demo_services\<lparr>new_client :=
       \<lambda>service_name n. (Inl (Exn OtherException (lit ''no region'')), n)\<rparr>"

definition demo_other_tool_backend :: "nat services" where
  "demo_other_tool_backend =
     demo_services\<lparr>converse := \<lambda>req n. (Inr demo_other_tool_response, Suc n)\<rparr>"

definition demo_backend_down :: "nat services" where
  "demo_backend_down =
     demo_services\<lparr>converse :=
       \<lambda>req n. (Inl (Exn (ClientError (lit ''throttled'')) (lit ''throttled'')), n)\<rparr>"

text \<open>
  The history a turn on \<open>prompt\<close> leaves: the old one when no reply was obtained, and
  the old one followed by the user's turn and the assistant's turn otherwise.
\<close>

definition history_after ::
  "config \<Rightarrow> 'w services \<Rightarrow> uploaded_file list \<Rightarrow> uploaded_file list \<Rightarrow> pystr \<Rightarrow>
   session_state \<Rightarrow> 'w world \<Rightarrow> turn list" where
  "history_after cfg svc documents images prompt s w =
     (case fst (turn_reply cfg svc prompt documents images s w) of
        Inl e \<Rightarrow> chat_history s
      | Inr assistant_response \<Rightarrow>
          chat_history s @
            [\<lparr>turn_role = lit ''user'', turn_text = Some prompt\<rparr>,
             \<lparr>turn_role = lit ''assistant'', turn_text = Some assistant_response\<rparr>])"

section \<open>Properties\<close>

subsection \<open>Filename sanitisation\<close>

lemma ws_norm_Cons:
  "ws_norm (c # cs) \<longleftrightarrow>
     (is_space c \<longrightarrow> c = 32 \<and> (cs = [] \<or> \<not> is_space (hd cs))) \<and> ws_norm cs"
  by (cases cs) auto

lemma hd_collapse_ws:
  "cs = [] \<or> \<not> is_space (hd cs) \<Longrightarrow>
   collapse_ws cs = [] \<or> \<not> is_space (hd (collapse_ws cs))"
  by (cases cs) auto

lemma hd_dropWhile_not: "dropWhile P xs = [] \<or> \<not> P (hd (dropWhile P xs))"
  by (metis hd_dropWhile)

lemma dropWhile_unchanged: "xs = [] \<or> \<not> P (hd xs) \<Longrightarrow> dropWhile P xs = xs"
  by (cases xs) auto

lemma ws_norm_collapse_ws: "ws_norm (collapse_ws s)"
proof (induction s rule: collapse_ws.induct)
  case 1
  show ?case by simp
next
  case (2 c cs)
  show ?case
  proof (cases "is_space c")
    case True
    have "collapse_ws (dropWhile is_space cs) = [] \<or>
          \<not> is_space (hd (collapse_ws (dropWhile is_space cs)))"
      by (rule hd_collapse_ws) (rule hd_dropWhile_not)
    with True 2 show ?thesis by (simp add: ws_norm_Cons)
  next
    case False
    with 2 show ?thesis by (simp add: ws_norm_Cons)
  qed
qed

lemma collapse_ws_ws_norm: "ws_norm s \<Longrightarrow> collapse_ws s = s"
proof (induction s rule: collapse_ws.induct)
  case 1
  show ?case by simp
next
  case (2 c cs)
  then show ?case by (cases cs) (auto simp: ws_norm_Cons)
qed

lemma ws_norm_prefix: "ws_norm (xs @ ys) \<Longrightarrow> ws_norm xs"
proof (induction xs)
  case Nil
  show ?case by simp
next
  case (Cons x xs)
  then show ?case by (cases xs) (auto simp: ws_norm_Cons)
qed

lemma ws_norm_suffix: "ws_norm (xs @ ys) \<Longrightarrow> ws_norm ys"
  by (induction xs) (auto simp: ws_norm_Cons)

lemma ws_norm_dropWhile: "ws_norm s \<Longrightarrow> ws_norm (dropWhile P s)"
  by (metis takeWhile_dropWhile_id ws_norm_suffix)

lemma rstrip_split: "rev (dropWhile P (rev s)) @ rev (takeWhile P (rev s)) = s"
  by (metis rev_append rev_rev_ident takeWhile_dropWhile_id)

lemma ws_norm_strip: "ws_norm s \<Longrightarrow> ws_norm (strip s)"
  unfolding strip_def by (metis rstrip_split ws_norm_prefix ws_norm_dropWhile)

lemma strip_strip: "strip (strip s) = strip s"
proof -
  define t where "t = dropWhile is_space s"
  define u where "u = dropWhile is_space (rev t)"
  have ht: "t = [] \<or> \<not> is_space (hd t)"
    unfolding t_def by (rule hd_dropWhile_not)
  have hu: "u = [] \<or> \<not> is_space (hd u)"
    unfolding u_def by (rule hd_dropWhile_not)
  have "rev u = [] \<or> \<not> is_space (hd (rev u))"
  proof (cases "u = []")
    case True
    then show ?thesis by simp
  next
    case False
    have "rev t = takeWhile is_space (rev t) @ u"
      by (simp add: u_def)
    then have "last (rev t) = last u"
      using False by (metis last_appendR)
    moreover have "t \<noteq> []"
      using False u_def by auto
    ultimately have "hd t = last u"
      by (simp add: last_rev)
    then show ?thesis
      using ht \<open>t \<noteq> []\<close> False by (simp add: hd_rev)
  qed
  then have a: "dropWhile is_space (rev u) = rev u"
    by (rule dropWhile_unchanged)
  have b: "dropWhile is_space u = u"
    using hu by (rule dropWhile_unchanged)
  show ?thesis
    unfolding strip_def t_def[symmetric] u_def[symmetric] by (simp add: a b)
qed

lemma set_collapse_ws: "set (collapse_ws s) \<subseteq> insert 32 (set s)"
proof (induction s rule: collapse_ws.induct)
  case 1
  show ?case by simp
next
  case (2 c cs)
  have "set (dropWhile is_space cs) \<subseteq> set cs"
    by (auto dest: set_dropWhileD)
  with 2 show ?case by auto
qed

lemma set_strip: "set (strip s) \<subseteq> set s"
  by (auto simp: strip_def dest!: set_dropWhileD)

lemma sub_invalid_unchanged: "\<forall>c\<in>set s. name_char c \<or> c = 95 \<Longrightarrow> sub_invalid s = s"
  unfolding sub_invalid_def by (induction s) auto

lemma set_sub_invalid: "c \<in> set (sub_invalid s) \<Longrightarrow> name_char c \<or> c = 95"
  unfolding sub_invalid_def by auto

lemma name_char_space: "name_char 32"
  by (simp add: name_char_def is_space_def)

lemma not_name_char_dot: "\<not> name_char 46"
  by (simp add: name_char_def is_space_def)

lemma sanitize_filename_chars:
  assumes "c \<in> set (sanitize_filename x)"
  shows "name_char c \<or> c = 95"
proof -
  from assms have "c \<in> set (collapse_ws (sub_invalid (rsplit1_head 46 x)))"
    using set_strip by (auto simp: sanitize_filename_def Let_def)
  then have "c = 32 \<or> c \<in> set (sub_invalid (rsplit1_head 46 x))"
    using set_collapse_ws by blast
  then show ?thesis
    using name_char_space set_sub_invalid by blast
qed

text \<open>
  C8. Sanitising is idempotent: a sanitised name has no dot left, only characters the
  substitution keeps, single spaces as its only whitespace and none at either end, so a
  second pass changes nothing.
\<close>

theorem sanitize_filename_idempotent:
  "sanitize_filename (sanitize_filename x) = sanitize_filename x"
proof -
  define y where "y = sanitize_filename x"
  have chars: "\<forall>c\<in>set y. name_char c \<or> c = 95"
    unfolding y_def using sanitize_filename_chars by blast
  have "46 \<notin> set y"
    using chars not_name_char_dot by auto
  then have 1: "rsplit1_head 46 y = y"
    by (simp add: rsplit1_head_def)
  have 2: "sub_invalid y = y"
    using chars by (rule sub_invalid_unchanged)
  have "ws_norm y"
    unfolding y_def sanitize_filename_def Let_def
    by (intro ws_norm_strip ws_norm_collapse_ws)
  then have 3: "collapse_ws y = y"
    by (rule collapse_ws_ws_norm)
  have 4: "strip y = y"
    unfolding y_def sanitize_filename_def Let_def by (rule strip_strip)
  have "sanitize_filename y = y"
    by (simp add: sanitize_filename_def[of y] Let_def 1 2 3 4)
  then show ?thesis
    by (simp add: y_def)
qed

subsection \<open>History cap\<close>

text \<open>
  C9. A history of more than 50 entries is cut to its last 50: the entries dropped are
  the oldest ones, a prefix of the old history, and the entries kept stand in their old
  order.
\<close>

theorem limit_chat_history_keeps_last_50:
  assumes "length h > 50"
  shows "length (limit_chat_history h) = 50 \<and>
         (\<exists>evicted. h = evicted @ limit_chat_history h \<and> length evicted = length h - 50)"
proof -
  have eq: "limit_chat_history h = drop (length h - 50) h"
    using assms by (simp add: limit_chat_history_def)
  have "h = take (length h - 50) h @ limit_chat_history h"
    by (simp add: eq)
  moreover have "length (take (length h - 50) h) = length h - 50"
    by simp
  moreover have "length (limit_chat_history h) = 50"
    using assms by (simp add: eq)
  ultimately show ?thesis
    by blast
qed

theorem limit_chat_history_keeps_last_50_witness:
  "length [0..<53] > 50 \<and> limit_chat_history [0..<53] = [3..<53] \<and>
   length (limit_chat_history [0..<53]) = 50 \<and>
   (\<exists>evicted. [0..<53] = evicted @ limit_chat_history [0..<53] \<and>
      length evicted = length [0..<53] - 50)"
  using limit_chat_history_keeps_last_50 [of "[0..<53]"]
  by (simp add: limit_chat_history_def drop_upt)

subsection \<open>Unicode-escape decoding\<close>

text \<open>
  C10. \<open>decode_unicode_text\<close> never raises: it returns a string for every input and
  every behaviour of the codec. A text without a backslash followed by \<open>u\<close> comes back
  unchanged, and so does a text on which the codec raises.
\<close>

theorem decode_unicode_text_total_conservative:
  "(\<exists>r. decode_unicode_text codec text = Inr r) \<and>
   (\<not> contains text [92, 117] \<longrightarrow> decode_unicode_text codec text = Inr text) \<and>
   (\<forall>e. codec text = Inl e \<longrightarrow> decode_unicode_text codec text = Inr text)"
  by (auto simp: decode_unicode_text_def try_except_def split: sum.splits)

theorem decode_unicode_text_total_conservative_witness:
  "\<not> contains (lit ''namaste'') [92, 117] \<and>
   decode_unicode_text (\<lambda>t. Inr (t @ t)) (lit ''namaste'') = Inr (lit ''namaste'') \<and>
   contains [92, 117, 90] [92, 117] \<and>
   (\<lambda>t. Inl (Exn ValueError [])) [92, 117, 90] = (Inl (Exn ValueError []) :: exn + pystr) \<and>
   decode_unicode_text (\<lambda>t. Inl (Exn ValueError [])) [92, 117, 90] = Inr [92, 117, 90]"
  using decode_unicode_text_total_conservative [of "\<lambda>t. Inr (t @ t)" "lit ''namaste''"]
    decode_unicode_text_total_conservative [of "\<lambda>t. Inl (Exn ValueError [])" "[92, 117, 90]"]
  by (simp add: lit_def)

subsection \<open>Evaluating literals and the sample inputs\<close>

lemma lit_eq_iff: "lit a = lit b \<longleftrightarrow> a = b"
  by (simp add: lit_def inj_map_eq_map[OF inj_of_char])

lemma lit_eq_Nil: "lit a = [] \<longleftrightarrow> a = []"
  by (simp add: lit_def)

lemmas demo_file_simps = demo_doc_def demo_img_def lit_def lower_def split_last_def
  sanitize_filename_def rsplit1_head_def sub_invalid_def strip_def name_char_def is_space_def
  Let_def

lemmas demo_world_simps = lit_eq_iff lit_eq_Nil demo_config_def demo_services_def
  demo_agent_down_def demo_no_client_def demo_other_tool_backend_def demo_backend_down_def
  demo_world_def demo_tool_def demo_other_tool_def demo_tool_response_def
  demo_other_tool_response_def demo_final_response_def run_def note_call_def show_ui_def
  falsy_def try_except_def

subsection \<open>Content blocks\<close>

lemma document_blocks_valid:
  "\<forall>d\<in>set docs. valid_document d \<Longrightarrow>
   \<exists>bs. document_blocks docs = Inr bs \<and> length bs = length docs"
  by (induction docs) (auto simp: valid_document_def supported_format_def Let_def)

lemma image_blocks_valid:
  "\<forall>i\<in>set imgs. valid_image i \<Longrightarrow>
   \<exists>bs. image_blocks imgs = Inr bs \<and> length bs = length imgs"
  by (induction imgs) (auto simp: valid_image_def Let_def)

text \<open>
  C2, as the code has it. Only the first 5 documents and the first 20 images are looked at:
  the content blocks of any upload are those of its first 5 documents and first 20 images,
  and when these pass the size and format checks the blocks are built, one per file looked
  at after the text block, however many more files were uploaded. No error is raised for
  the number of files.
\<close>

theorem build_content_blocks_ignores_extra:
  "build_content_blocks t docs imgs = build_content_blocks t (take 5 docs) (take 20 imgs) \<and>
   ((\<forall>d\<in>set (take 5 docs). valid_document d) \<and> (\<forall>i\<in>set (take 20 imgs). valid_image i) \<longrightarrow>
    (\<exists>bs. build_content_blocks t docs imgs = Inr bs \<and>
          length bs = 1 + min 5 (length docs) + min 20 (length imgs)))"
proof (intro conjI impI)
  show "build_content_blocks t docs imgs = build_content_blocks t (take 5 docs) (take 20 imgs)"
    by (simp add: build_content_blocks_def split: sum.splits)
next
  assume a: "(\<forall>d\<in>set (take 5 docs). valid_document d) \<and>
             (\<forall>i\<in>set (take 20 imgs). valid_image i)"
  from a obtain ds where ds: "document_blocks (take 5 docs) = Inr ds"
      "length ds = length (take 5 docs)"
    using document_blocks_valid by blast
  from a obtain ims where ims: "image_blocks (take 20 imgs) = Inr ims"
      "length ims = length (take 20 imgs)"
    using image_blocks_valid by blast
  show "\<exists>bs. build_content_blocks t docs imgs = Inr bs \<and>
          length bs = 1 + min 5 (length docs) + min 20 (length imgs)"
    using ds ims by (simp add: build_content_blocks_def min.commute)
qed

text \<open>
  Six documents, the sixth of them too large: the blocks of the first five are built and
  nothing is raised.
\<close>

theorem build_content_blocks_six_documents:
  "length [demo_doc 1, demo_doc 2, demo_doc 3, demo_doc 4, demo_doc 5, demo_doc 9999999] > 5 \<and>
   build_content_blocks (lit ''hi'')
     [demo_doc 1, demo_doc 2, demo_doc 3, demo_doc 4, demo_doc 5, demo_doc 9999999] [] =
     Inr [TextBlock (lit ''hi''),
          DocumentBlock (lit ''notes_v2'') (lit ''txt'') [1, 2, 3],
          DocumentBlock (lit ''notes_v2'') (lit ''txt'') [1, 2, 3],
          DocumentBlock (lit ''notes_v2'') (lit ''txt'') [1, 2, 3],
          DocumentBlock (lit ''notes_v2'') (lit ''txt'') [1, 2, 3],
          DocumentBlock (lit ''notes_v2'') (lit ''txt'') [1, 2, 3]]"
  by (simp add: build_content_blocks_def demo_file_simps)

theorem build_content_blocks_ignores_extra_witness:
  "valid_document (demo_doc 1) \<and> valid_document (demo_doc 2) \<and> valid_document (demo_doc 3) \<and>
   valid_document (demo_doc 4) \<and> valid_document (demo_doc 5) \<and>
   \<not> valid_document (demo_doc 9999999) \<and> valid_image (demo_img 7) \<and>
   (\<exists>bs. build_content_blocks (lit ''hi'')
            [demo_doc 1, demo_doc 2, demo_doc 3, demo_doc 4, demo_doc 5, demo_doc 9999999]
            [demo_img 7] = Inr bs \<and>
          length bs = 7)"
proof -
  have v: "valid_document (demo_doc 1) \<and> valid_document (demo_doc 2) \<and>
           valid_document (demo_doc 3) \<and> valid_document (demo_doc 4) \<and>
           valid_document (demo_doc 5) \<and> \<not> valid_document (demo_doc 9999999) \<and>
           valid_image (demo_img 7)"
    by (simp add: valid_document_def supported_format_def valid_image_def demo_file_simps)
  then have h: "(\<forall>d\<in>set (take 5 [demo_doc 1, demo_doc 2, demo_doc 3, demo_doc 4, demo_doc 5,
                        demo_doc 9999999]). valid_document d) \<and>
           (\<forall>i\<in>set (take 20 [demo_img 7]). valid_image i)"
    by simp
  from build_content_blocks_ignores_extra [THEN conjunct2, rule_format, OF h, of "lit ''hi''"]
  obtain bs where bs: "build_content_blocks (lit ''hi'')
            [demo_doc 1, demo_doc 2, demo_doc 3, demo_doc 4, demo_doc 5, demo_doc 9999999]
            [demo_img 7] = Inr bs"
    and len: "length bs =
      1 + min 5 (length [demo_doc 1, demo_doc 2, demo_doc 3, demo_doc 4, demo_doc 5,
                         demo_doc 9999999]) + min 20 (length [demo_img 7])"
    by blast
  from len have "length bs = 7"
    by simp
  with bs v show ?thesis
    by blast
qed

text \<open>
  C7. A document of exactly 4718592 bytes (4.5 MB) in a supported format is accepted and
  one of 4718593 bytes is rejected with a \<open>ValueError\<close>; an image of exactly 3932160 bytes
  (3.75 MB) is accepted and one of 3932161 bytes is rejected with a \<open>ValueError\<close>.
\<close>

theorem size_limits_boundary:
  "(file_size doc = 4718592 \<and> supported_format doc \<longrightarrow>
      build_content_blocks t [doc] [] =
        Inr [TextBlock t,
             DocumentBlock (sanitize_filename (file_name doc))
               (lower (split_last 46 (file_name doc))) (file_data doc)]) \<and>
   (file_size doc = 4718593 \<longrightarrow>
      build_content_blocks t [doc] imgs =
        Inl (Exn ValueError
               (lit ''Document '' @ [39] @ file_name doc @ [39] @ lit '' exceeds 4.5MB limit.''))) \<and>
   (file_size img = 3932160 \<longrightarrow>
      build_content_blocks t [] [img] =
        Inr [TextBlock t, ImageBlock (split_last 47 (file_type img)) (file_data img)]) \<and>
   (file_size img = 3932161 \<longrightarrow>
      build_content_blocks t [] [img] =
        Inl (Exn ValueError
               (lit ''Image '' @ [39] @ file_name img @ [39] @ lit '' exceeds 3.75MB limit.'')))"
  by (auto simp: build_content_blocks_def supported_format_def Let_def)

theorem size_limits_boundary_witness:
  "build_content_blocks (lit ''hi'') [demo_doc 4718592] [] =
     Inr [TextBlock (lit ''hi''), DocumentBlock (lit ''notes_v2'') (lit ''txt'') [1, 2, 3]] \<and>
   (\<exists>m. build_content_blocks (lit ''hi'') [demo_doc 4718593] [] = Inl (Exn ValueError m)) \<and>
   build_content_blocks (lit ''hi'') [] [demo_img 3932160] =
     Inr [TextBlock (lit ''hi''), ImageBlock (lit ''png'') [4, 5]] \<and>
   (\<exists>m. build_content_blocks (lit ''hi'') [] [demo_img 3932161] = Inl (Exn ValueError m))"
  using size_limits_boundary [of "demo_doc 4718592" "lit ''hi''" "[]" "demo_img 3932160"]
    size_limits_boundary [of "demo_doc 4718593" "lit ''hi''" "[]" "demo_img 3932161"]
  by (simp add: supported_format_def demo_file_simps)

subsection \<open>Blank prompt\<close>

lemma strip_empty_iff: "strip s = [] \<longleftrightarrow> (\<forall>c\<in>set s. is_space c)"
proof
  assume "strip s = []"
  then have "dropWhile is_space (rev (dropWhile is_space s)) = []"
    by (simp add: strip_def)
  then have "\<forall>c\<in>set (dropWhile is_space s). is_space c"
    by simp
  then have "dropWhile is_space s = []"
    using hd_dropWhile_not[of is_space s] by (cases "dropWhile is_space s") auto
  then show "\<forall>c\<in>set s. is_space c"
    by simp
next
  assume "\<forall>c\<in>set s. is_space c"
  then show "strip s = []"
    by (auto simp: strip_def dest: set_dropWhileD)
qed

lemma strip_nonempty: "strip s \<noteq> [] \<Longrightarrow> s \<noteq> []"
  by (auto simp: strip_def)

text \<open>
  C4. On a prompt that is empty or all whitespace, \<open>generate_message\<close> raises
  \<open>ValueError\<close> and leaves the world as it was: no call is added to the record of calls
  and the outside world is not touched, so the backend is not called.
\<close>

theorem generate_message_rejects_blank_prompt:
  assumes "\<forall>c\<in>set input_text. is_space c"
  shows "generate_message cfg svc model_id input_text documents images history w =
           (Inl (Exn ValueError (lit ''Input text cannot be empty'')), w)"
  using assms by (simp add: generate_message_def strip_empty_iff)

theorem generate_message_rejects_blank_prompt_witness:
  "is_space 32 \<and> is_space 9 \<and> is_space 10 \<and> is_space 12288 \<and>
   generate_message demo_config demo_services (Some (lit ''model'')) [32, 9, 10, 12288]
     [demo_doc 10] [] [] demo_world =
     (Inl (Exn ValueError (lit ''Input text cannot be empty'')), demo_world) \<and>
   calls demo_world = []"
  using generate_message_rejects_blank_prompt
    [of "[32, 9, 10, 12288]" demo_config demo_services "Some (lit ''model'')" "[demo_doc 10]"
        "[]" "[]" demo_world]
  by (simp add: is_space_def demo_world_def)

subsection \<open>The tool path\<close>

lemma tool_dispatches_append:
  "tool_dispatches (xs @ ys) = tool_dispatches xs @ tool_dispatches ys"
  by (induction xs rule: tool_dispatches.induct) auto

lemma converse_calls_append:
  "converse_calls (xs @ ys) = converse_calls xs @ converse_calls ys"
  by (induction xs rule: converse_calls.induct) auto

lemma dispatch_tool_result:
  "\<exists>tr. fst (dispatch_tool cfg svc tool w) = Inr tr \<and> result_toolUseId tr = toolUseId tool"
  by (auto simp: dispatch_tool_def try_except_def split: option.splits prod.splits sum.splits)

lemma get_government_scheme_info_calls:
  assumes "get_government_scheme_info cfg svc q w = (r, w1)"
  shows "tool_dispatches (calls w1) = tool_dispatches (calls w) \<and>
         converse_calls (calls w1) = converse_calls (calls w)"
  using assms
  by (auto simp: get_government_scheme_info_def run_def note_call_def Let_def
        tool_dispatches_append converse_calls_append
      split: if_splits prod.splits sum.splits)

lemma dispatch_tool_calls:
  assumes "dispatch_tool cfg svc tool w = (r, w1)"
  shows "tool_dispatches (calls w1) = tool_dispatches (calls w) @ [tool] \<and>
         converse_calls (calls w1) = converse_calls (calls w)"
proof (cases "map_of (tool_input tool) (lit ''query'')")
  case None
  with assms show ?thesis
    by (auto simp: dispatch_tool_def note_call_def tool_dispatches_append converse_calls_append)
next
  case (Some q)
  obtain r0 w0 where
    g: "get_government_scheme_info cfg svc q (note_call (ToolDispatch tool) w) = (r0, w0)"
    by (cases "get_government_scheme_info cfg svc q (note_call (ToolDispatch tool) w)")
  have "w1 = w0"
    using assms Some g by (auto simp: dispatch_tool_def split: sum.splits)
  with get_government_scheme_info_calls[OF g] show ?thesis
    by (simp add: note_call_def tool_dispatches_append converse_calls_append)
qed

lemma dispatch_tool_status:
  "fst (dispatch_tool cfg svc tool w) = Inr tr \<Longrightarrow>
   (if map_of (tool_input tool) (lit ''query'') = None \<or>
       (\<not> falsy (BEDROCK_AGENT_ID cfg) \<and> \<not> falsy (BEDROCK_AGENT_ALIAS_ID cfg) \<and>
        (\<exists>e x. new_client svc (lit ''bedrock-agent-runtime'') (ext w) = (Inl e, x)))
    then result_status tr = Some (lit ''error'')
    else result_status tr = None)"
  by (auto simp: dispatch_tool_def get_government_scheme_info_def run_def note_call_def
        try_except_def Let_def
      split: option.splits prod.splits sum.splits if_splits)

text \<open>
  C3, as the code has it. The tool path always ends with a tool result carrying the
  identifier of the \<open>toolUse\<close> entry: no exception leaves it. A failure of
  \<open>invoke_agent\<close> or of reading its stream is caught inside
  \<open>get_government_scheme_info\<close> and comes back as a result without a \<open>status\<close> key, whose
  JSON text holds the message \<open>Failed to retrieve information due to internal error.\<close>
  The result has the status \<open>error\<close>, with the text of the exception, exactly when an
  exception leaves \<open>get_government_scheme_info\<close>, which is when the identifiers are
  configured and the client cannot be made, or when the tool input has no \<open>query\<close>. In
  every other case the result has no \<open>status\<close> key: a missing configuration and an empty
  answer come back as JSON text with their \<open>error\<close> message, and an answer as JSON text
  with its \<open>detail\<close>.
\<close>

theorem dispatch_tool_failure_results:
  "(\<exists>tr. fst (dispatch_tool cfg svc tool w) = Inr tr \<and> result_toolUseId tr = toolUseId tool) \<and>
   (\<forall>q e x x'.
      map_of (tool_input tool) (lit ''query'') = Some q \<and>
      \<not> falsy (BEDROCK_AGENT_ID cfg) \<and> \<not> falsy (BEDROCK_AGENT_ALIAS_ID cfg) \<and>
      new_client svc (lit ''bedrock-agent-runtime'') (ext w) = (Inr (), x) \<and>
      invoke_agent svc q x = (Inl e, x') \<longrightarrow>
      fst (dispatch_tool cfg svc tool w) =
        Inr \<lparr>result_toolUseId = toolUseId tool,
             result_content =
               [JsonResult (lit ''Tool Result: '' @ json_dumps svc
                  [(lit ''error'',
                    lit ''Failed to retrieve information due to internal error.'')])],
             result_status = None\<rparr>) \<and>
   (\<forall>q e x.
      map_of (tool_input tool) (lit ''query'') = Some q \<and>
      \<not> falsy (BEDROCK_AGENT_ID cfg) \<and> \<not> falsy (BEDROCK_AGENT_ALIAS_ID cfg) \<and>
      new_client svc (lit ''bedrock-agent-runtime'') (ext w) = (Inl e, x) \<longrightarrow>
      fst (dispatch_tool cfg svc tool w) =
        Inr \<lparr>result_toolUseId = toolUseId tool,
             result_content = [TextResult (lit ''Tool Result: '' @ exn_str e)],
             result_status = Some (lit ''error'')\<rparr>) \<and>
   (map_of (tool_input tool) (lit ''query'') = None \<longrightarrow>
      fst (dispatch_tool cfg svc tool w) =
        Inr \<lparr>result_toolUseId = toolUseId tool,
             result_content = [TextResult (lit ''Tool Result: '' @ [39] @ lit ''query'' @ [39])],
             result_status = Some (lit ''error'')\<rparr>) \<and>
   (\<forall>tr. fst (dispatch_tool cfg svc tool w) = Inr tr \<longrightarrow>
      (if map_of (tool_input tool) (lit ''query'') = None \<or>
          (\<not> falsy (BEDROCK_AGENT_ID cfg) \<and> \<not> falsy (BEDROCK_AGENT_ALIAS_ID cfg) \<and>
           (\<exists>e x. new_client svc (lit ''bedrock-agent-runtime'') (ext w) = (Inl e, x)))
       then result_status tr = Some (lit ''error'')
       else result_status tr = None)) \<and>
   (\<forall>q. map_of (tool_input tool) (lit ''query'') = Some q \<and>
      (falsy (BEDROCK_AGENT_ID cfg) \<or> falsy (BEDROCK_AGENT_ALIAS_ID cfg)) \<longrightarrow>
      fst (dispatch_tool cfg svc tool w) =
        Inr \<lparr>result_toolUseId = toolUseId tool,
             result_content =
               [JsonResult (lit ''Tool Result: '' @ json_dumps svc
                  [(lit ''error'', lit ''Bedrock agent configuration missing'')])],
             result_status = None\<rparr>) \<and>
   (\<forall>q x chunks x'.
      map_of (tool_input tool) (lit ''query'') = Some q \<and>
      \<not> falsy (BEDROCK_AGENT_ID cfg) \<and> \<not> falsy (BEDROCK_AGENT_ALIAS_ID cfg) \<and>
      new_client svc (lit ''bedrock-agent-runtime'') (ext w) = (Inr (), x) \<and>
      invoke_agent svc q x = (Inr chunks, x') \<longrightarrow>
      fst (dispatch_tool cfg svc tool w) =
        Inr \<lparr>result_toolUseId = toolUseId tool,
             result_content =
               [JsonResult (lit ''Tool Result: '' @ json_dumps svc
                  (if concat chunks = []
                   then [(lit ''error'', lit ''No relevant information found for your query.'')]
                   else [(lit ''detail'', concat chunks)]))],
             result_status = None\<rparr>)"
proof (intro conjI allI impI)
  show "\<exists>tr. fst (dispatch_tool cfg svc tool w) = Inr tr \<and>
             result_toolUseId tr = toolUseId tool"
    by (rule dispatch_tool_result)
next
  fix q e x x'
  assume "map_of (tool_input tool) (lit ''query'') = Some q \<and>
      \<not> falsy (BEDROCK_AGENT_ID cfg) \<and> \<not> falsy (BEDROCK_AGENT_ALIAS_ID cfg) \<and>
      new_client svc (lit ''bedrock-agent-runtime'') (ext w) = (Inr (), x) \<and>
      invoke_agent svc q x = (Inl e, x')"
  then show "fst (dispatch_tool cfg svc tool w) =
        Inr \<lparr>result_toolUseId = toolUseId tool,
             result_content =
               [JsonResult (lit ''Tool Result: '' @ json_dumps svc
                  [(lit ''error'',
                    lit ''Failed to retrieve information due to internal error.'')])],
             result_status = None\<rparr>"
    by (simp add: dispatch_tool_def get_government_scheme_info_def run_def note_call_def
          try_except_def)
next
  fix q e x
  assume "map_of (tool_input tool) (lit ''query'') = Some q \<and>
      \<not> falsy (BEDROCK_AGENT_ID cfg) \<and> \<not> falsy (BEDROCK_AGENT_ALIAS_ID cfg) \<and>
      new_client svc (lit ''bedrock-agent-runtime'') (ext w) = (Inl e, x)"
  then show "fst (dispatch_tool cfg svc tool w) =
        Inr \<lparr>result_toolUseId = toolUseId tool,
             result_content = [TextResult (lit ''Tool Result: '' @ exn_str e)],
             result_status = Some (lit ''error'')\<rparr>"
    by (simp add: dispatch_tool_def get_government_scheme_info_def run_def note_call_def
          try_except_def)
next
  assume "map_of (tool_input tool) (lit ''query'') = None"
  then show "fst (dispatch_tool cfg svc tool w) =
        Inr \<lparr>result_toolUseId = toolUseId tool,
             result_content = [TextResult (lit ''Tool Result: '' @ [39] @ lit ''query'' @ [39])],
             result_status = Some (lit ''error'')\<rparr>"
    by (simp add: dispatch_tool_def try_except_def)
next
  fix tr
  assume "fst (dispatch_tool cfg svc tool w) = Inr tr"
  then show "if map_of (tool_input tool) (lit ''query'') = None \<or>
          (\<not> falsy (BEDROCK_AGENT_ID cfg) \<and> \<not> falsy (BEDROCK_AGENT_ALIAS_ID cfg) \<and>
           (\<exists>e x. new_client svc (lit ''bedrock-agent-runtime'') (ext w) = (Inl e, x)))
       then result_status tr = Some (lit ''error'')
       else result_status tr = None"
    by (rule dispatch_tool_status)
next
  fix q
  assume "map_of (tool_input tool) (lit ''query'') = Some q \<and>
      (falsy (BEDROCK_AGENT_ID cfg) \<or> falsy (BEDROCK_AGENT_ALIAS_ID cfg))"
  then show "fst (dispatch_tool cfg svc tool w) =
        Inr \<lparr>result_toolUseId = toolUseId tool,
             result_content =
               [JsonResult (lit ''Tool Result: '' @ json_dumps svc
                  [(lit ''error'', lit ''Bedrock agent configuration missing'')])],
             result_status = None\<rparr>"
    by (auto simp: dispatch_tool_def get_government_scheme_info_def try_except_def)
next
  fix q x chunks x'
  assume "map_of (tool_input tool) (lit ''query'') = Some q \<and>
      \<not> falsy (BEDROCK_AGENT_ID cfg) \<and> \<not> falsy (BEDROCK_AGENT_ALIAS_ID cfg) \<and>
      new_client svc (lit ''bedrock-agent-runtime'') (ext w) = (Inr (), x) \<and>
      invoke_agent svc q x = (Inr chunks, x')"
  then show "fst (dispatch_tool cfg svc tool w) =
        Inr \<lparr>result_toolUseId = toolUseId tool,
             result_content =
               [JsonResult (lit ''Tool Result: '' @ json_dumps svc
                  (if concat chunks = []
                   then [(lit ''error'', lit ''No relevant information found for your query.'')]
                   else [(lit ''detail'', concat chunks)]))],
             result_status = None\<rparr>"
    by (simp add: dispatch_tool_def get_government_scheme_info_def run_def note_call_def
          try_except_def Let_def)
qed

text \<open>
  The agent fails with a connection error: the tool result that reaches the orchestrator
  has no status, so its status is not \<open>error\<close>.
\<close>

theorem dispatch_tool_agent_failure_no_status:
  "invoke_agent demo_agent_down (lit ''MSME subsidy'') 0 =
     (Inl (Exn OtherException (lit ''connection reset'')), 0) \<and>
   fst (dispatch_tool demo_config demo_agent_down demo_tool demo_world) =
     Inr \<lparr>result_toolUseId = lit ''t1'',
          result_content =
            [JsonResult (lit ''Tool Result: '' @ json_dumps demo_agent_down
               [(lit ''error'',
                 lit ''Failed to retrieve information due to internal error.'')])],
          result_status = None\<rparr> \<and>
   result_status
     \<lparr>result_toolUseId = lit ''t1'',
      result_content =
        [JsonResult (lit ''Tool Result: '' @ json_dumps demo_agent_down
           [(lit ''error'',
             lit ''Failed to retrieve information due to internal error.'')])],
      result_status = None\<rparr> \<noteq> Some (lit ''error'')"
  by (simp add: dispatch_tool_def get_government_scheme_info_def demo_world_simps)

theorem dispatch_tool_failure_results_witness:
  "fst (dispatch_tool demo_config demo_agent_down demo_tool demo_world) =
     Inr \<lparr>result_toolUseId = lit ''t1'',
          result_content =
            [JsonResult (lit ''Tool Result: '' @ json_dumps demo_agent_down
               [(lit ''error'',
                 lit ''Failed to retrieve information due to internal error.'')])],
          result_status = None\<rparr> \<and>
   fst (dispatch_tool demo_config demo_no_client demo_tool demo_world) =
     Inr \<lparr>result_toolUseId = lit ''t1'',
          result_content = [TextResult (lit ''Tool Result: '' @ lit ''no region'')],
          result_status = Some (lit ''error'')\<rparr> \<and>
   fst (dispatch_tool demo_config demo_services demo_tool demo_world) =
     Inr \<lparr>result_toolUseId = lit ''t1'',
          result_content =
            [JsonResult (lit ''Tool Result: '' @ json_dumps demo_services
               [(lit ''detail'', lit ''PM Mudra'')])],
          result_status = None\<rparr>"
proof -
  have a: "map_of (tool_input demo_tool) (lit ''query'') = Some (lit ''MSME subsidy'') \<and>
      \<not> falsy (BEDROCK_AGENT_ID demo_config) \<and>
      \<not> falsy (BEDROCK_AGENT_ALIAS_ID demo_config) \<and>
      new_client demo_agent_down (lit ''bedrock-agent-runtime'') (ext demo_world) =
        (Inr (), 0) \<and>
      invoke_agent demo_agent_down (lit ''MSME subsidy'') 0 =
        (Inl (Exn OtherException (lit ''connection reset'')), 0)"
    by (simp add: demo_world_simps)
  have b: "map_of (tool_input demo_tool) (lit ''query'') = Some (lit ''MSME subsidy'') \<and>
      \<not> falsy (BEDROCK_AGENT_ID demo_config) \<and>
      \<not> falsy (BEDROCK_AGENT_ALIAS_ID demo_config) \<and>
      new_client demo_no_client (lit ''bedrock-agent-runtime'') (ext demo_world) =
        (Inl (Exn OtherException (lit ''no region'')), 0)"
    by (simp add: demo_world_simps)
  have c: "map_of (tool_input demo_tool) (lit ''query'') = Some (lit ''MSME subsidy'') \<and>
      \<not> falsy (BEDROCK_AGENT_ID demo_config) \<and>
      \<not> falsy (BEDROCK_AGENT_ALIAS_ID demo_config) \<and>
      new_client demo_services (lit ''bedrock-agent-runtime'') (ext demo_world) =
        (Inr (), 0) \<and>
      invoke_agent demo_services (lit ''MSME subsidy'') 0 =
        (Inr [lit ''PM '', lit ''Mudra''], 0)"
    by (simp add: demo_world_simps)
  have l: "lit ''PM '' @ lit ''Mudra'' = lit ''PM Mudra''"
    by (simp add: lit_def)
  from dispatch_tool_failure_results [of demo_config demo_agent_down demo_tool demo_world,
      THEN conjunct2, THEN conjunct1, rule_format, OF a]
    dispatch_tool_failure_results [of demo_config demo_no_client demo_tool demo_world,
      THEN conjunct2, THEN conjunct2, THEN conjunct1, rule_format, OF b]
    dispatch_tool_failure_results [of demo_config demo_services demo_tool demo_world,
      THEN conjunct2, THEN conjunct2, THEN conjunct2, THEN conjunct2, THEN conjunct2,
      THEN conjunct2, rule_format, OF c]
  show ?thesis
    by (simp add: l lit_eq_Nil demo_tool_def)
qed

subsection \<open>The tool round trip\<close>

lemma tool_requests_loop_no_known:
  "known_tool_uses bs = [] \<Longrightarrow>
   tool_requests_loop cfg svc model_id msgs out bs w = (Inr out, w)"
  by (induction bs rule: known_tool_uses.induct) (auto split: if_splits)

lemma tool_requests_loop_first_known:
  "known_tool_uses bs = tool # rest \<Longrightarrow>
   tool_requests_loop cfg svc model_id msgs out bs w =
     tool_round_trip cfg svc model_id msgs tool w"
  by (induction bs rule: known_tool_uses.induct) (auto split: if_splits)

text \<open>
  C1, as the code has it. Let the first response stop for tool use. If its content holds
  no \<open>toolUse\<close> entry named \<open>government_scheme_info\<close>, nothing is dispatched, no second
  call is made and the first response's message is returned. If it holds exactly one such
  entry, the tool path runs for it exactly once and always yields a tool result, exactly
  one follow-up \<open>converse\<close> call is made, on the first request's messages followed by the
  first response's message and the tool result message, without a system prompt, and what
  \<open>generate_message\<close> returns is that call's outcome: its output message, whatever its
  stop reason, or its exception.
\<close>

theorem generate_message_tool_use:
  assumes "strip input_text \<noteq> []"
    and "build_content_blocks input_text documents images = Inr blocks"
    and "converse svc (first_request cfg model_id history blocks) (ext w) = (Inr r, x)"
    and "stopReason r = lit ''tool_use''"
  shows
    "(known_tool_uses (content (output_message r)) = [] \<longrightarrow>
        generate_message cfg svc model_id input_text documents images history w =
          (Inr (output_message r),
           w\<lparr>calls := calls w @ [ConverseCall (first_request cfg model_id history blocks)],
             ext := x\<rparr>)) \<and>
     (\<forall>tool. known_tool_uses (content (output_message r)) = [tool] \<longrightarrow>
        (\<exists>tool_result w1 req2 r2 x2.
           dispatch_tool cfg svc tool
             (w\<lparr>calls := calls w @ [ConverseCall (first_request cfg model_id history blocks)],
                ext := x\<rparr>) =
             (Inr tool_result, w1) \<and>
           tool_dispatches (calls w1) = tool_dispatches (calls w) @ [tool] \<and>
           converse_calls (calls w1) =
             converse_calls (calls w) @ [first_request cfg model_id history blocks] \<and>
           req2 = \<lparr>modelId = model_id,
                   messages = messages (first_request cfg model_id history blocks) @
                     [output_message r,
                      \<lparr>role = lit ''user'', content = [ToolResultBlock tool_result]\<rparr>],
                   system = None, toolConfig = tool_config\<rparr> \<and>
           converse svc req2 (ext w1) = (r2, x2) \<and>
           generate_message cfg svc model_id input_text documents images history w =
             (case r2 of Inl e \<Rightarrow> Inl e | Inr response \<Rightarrow> Inr (output_message response),
              w1\<lparr>calls := calls w1 @ [ConverseCall req2], ext := x2\<rparr>)))"
proof -
  define req1 where "req1 = first_request cfg model_id history blocks"
  define w0 where "w0 = w\<lparr>calls := calls w @ [ConverseCall req1], ext := x\<rparr>"
  have gm: "generate_message cfg svc model_id input_text documents images history w =
              tool_requests_loop cfg svc model_id (messages req1 @ [output_message r])
                (output_message r) (content (output_message r)) w0"
    using assms strip_nonempty[OF assms(1)]
    by (simp add: generate_message_def run_def note_call_def req1_def w0_def Let_def)
  have part1: "known_tool_uses (content (output_message r)) = [] \<longrightarrow>
        generate_message cfg svc model_id input_text documents images history w =
          (Inr (output_message r), w0)"
    by (simp add: gm tool_requests_loop_no_known)
  have part2: "\<exists>tool_result w1 req2 r2 x2.
           dispatch_tool cfg svc tool w0 = (Inr tool_result, w1) \<and>
           tool_dispatches (calls w1) = tool_dispatches (calls w) @ [tool] \<and>
           converse_calls (calls w1) = converse_calls (calls w) @ [req1] \<and>
           req2 = \<lparr>modelId = model_id,
                   messages = messages req1 @
                     [output_message r,
                      \<lparr>role = lit ''user'', content = [ToolResultBlock tool_result]\<rparr>],
                   system = None, toolConfig = tool_config\<rparr> \<and>
           converse svc req2 (ext w1) = (r2, x2) \<and>
           generate_message cfg svc model_id input_text documents images history w =
             (case r2 of Inl e \<Rightarrow> Inl e | Inr response \<Rightarrow> Inr (output_message response),
              w1\<lparr>calls := calls w1 @ [ConverseCall req2], ext := x2\<rparr>)"
    if k: "known_tool_uses (content (output_message r)) = [tool]" for tool
  proof -
    obtain d w1 where d: "dispatch_tool cfg svc tool w0 = (d, w1)"
      by (cases "dispatch_tool cfg svc tool w0")
    obtain tr where tr: "d = Inr tr"
      using dispatch_tool_result[of cfg svc tool w0] d by auto
    have c: "tool_dispatches (calls w1) = tool_dispatches (calls w) @ [tool]"
         "converse_calls (calls w1) = converse_calls (calls w) @ [req1]"
      using dispatch_tool_calls[OF d]
      by (simp_all add: w0_def tool_dispatches_append converse_calls_append)
    define req2 where "req2 = \<lparr>modelId = model_id,
                   messages = messages req1 @
                     [output_message r,
                      \<lparr>role = lit ''user'', content = [ToolResultBlock tr]\<rparr>],
                   system = None, toolConfig = tool_config\<rparr>"
    obtain r2 x2 where r2: "converse svc req2 (ext w1) = (r2, x2)"
      by (cases "converse svc req2 (ext w1)")
    have "generate_message cfg svc model_id input_text documents images history w =
             (case r2 of Inl e \<Rightarrow> Inl e | Inr response \<Rightarrow> Inr (output_message response),
              w1\<lparr>calls := calls w1 @ [ConverseCall req2], ext := x2\<rparr>)"
      using d tr r2
      by (simp add: gm tool_requests_loop_first_known[OF k] tool_round_trip_def run_def
            note_call_def Let_def req2_def[symmetric] split: sum.splits)
    with d tr c r2 req2_def show ?thesis
      by blast
  qed
  show ?thesis
    using part1 part2 unfolding req1_def[symmetric] w0_def[symmetric] by blast
qed

text \<open>
  The backend stops for tool use and asks only for a tool named \<open>weather\<close>: the one
  call made is the first one, and its message is returned.
\<close>

theorem generate_message_unknown_tool_no_follow_up:
  "stopReason demo_other_tool_response = lit ''tool_use'' \<and>
   generate_message demo_config demo_other_tool_backend (Some (lit ''model''))
     (lit ''Will it rain?'') [] [] [] demo_world =
     (Inr (output_message demo_other_tool_response),
      demo_world\<lparr>calls := [ConverseCall (first_request demo_config (Some (lit ''model'')) []
                                          [TextBlock (lit ''Will it rain?'')])],
                 ext := 1\<rparr>)"
  by (simp add: generate_message_def build_content_blocks_def demo_world_simps
        lit_def strip_def is_space_def)

theorem generate_message_tool_use_witness:
  "strip (lit ''What is the MSME subsidy scheme?'') \<noteq> [] \<and>
   stopReason demo_tool_response = lit ''tool_use'' \<and>
   known_tool_uses (content (output_message demo_tool_response)) = [demo_tool] \<and>
   fst (generate_message demo_config demo_services (Some (lit ''model''))
          (lit ''What is the MSME subsidy scheme?'') [] [] [] demo_world) =
     Inr (output_message demo_final_response) \<and>
   tool_dispatches (calls (snd (generate_message demo_config demo_services
          (Some (lit ''model'')) (lit ''What is the MSME subsidy scheme?'') [] [] []
          demo_world))) = [demo_tool] \<and>
   length (converse_calls (calls (snd (generate_message demo_config demo_services
          (Some (lit ''model'')) (lit ''What is the MSME subsidy scheme?'') [] [] []
          demo_world)))) = 2"
proof -
  have h1: "strip (lit ''What is the MSME subsidy scheme?'') \<noteq> []"
    by (simp add: lit_def strip_def is_space_def)
  have h2: "build_content_blocks (lit ''What is the MSME subsidy scheme?'') [] [] =
              Inr [TextBlock (lit ''What is the MSME subsidy scheme?'')]"
    by (simp add: build_content_blocks_def)
  have h3: "converse demo_services
              (first_request demo_config (Some (lit ''model'')) []
                 [TextBlock (lit ''What is the MSME subsidy scheme?'')]) (ext demo_world) =
              (Inr demo_tool_response, 1)"
    by (simp add: demo_services_def demo_world_def)
  have h4: "stopReason demo_tool_response = lit ''tool_use''"
    by (simp add: demo_tool_response_def)
  have k: "known_tool_uses (content (output_message demo_tool_response)) = [demo_tool]"
    by (simp add: demo_tool_response_def demo_tool_def)
  from generate_message_tool_use [OF h1 h2 h3 h4, THEN conjunct2, rule_format, OF k]
  obtain tool_result w1 req2 r2 x2 where
    "dispatch_tool demo_config demo_services demo_tool
       (demo_world\<lparr>calls := calls demo_world @
          [ConverseCall (first_request demo_config (Some (lit ''model'')) []
             [TextBlock (lit ''What is the MSME subsidy scheme?'')])], ext := 1\<rparr>) =
       (Inr tool_result, w1)"
    and d: "tool_dispatches (calls w1) = tool_dispatches (calls demo_world) @ [demo_tool]"
    and c: "converse_calls (calls w1) = converse_calls (calls demo_world) @
              [first_request demo_config (Some (lit ''model'')) []
                 [TextBlock (lit ''What is the MSME subsidy scheme?'')]]"
    and "req2 = \<lparr>modelId = Some (lit ''model''),
                   messages = messages (first_request demo_config (Some (lit ''model'')) []
                       [TextBlock (lit ''What is the MSME subsidy scheme?'')]) @
                     [output_message demo_tool_response,
                      \<lparr>role = lit ''user'', content = [ToolResultBlock tool_result]\<rparr>],
                   system = None, toolConfig = tool_config\<rparr>"
    and "converse demo_services req2 (ext w1) = (r2, x2)"
    and g: "generate_message demo_config demo_services (Some (lit ''model''))
              (lit ''What is the MSME subsidy scheme?'') [] [] [] demo_world =
            (case r2 of Inl e \<Rightarrow> Inl e | Inr response \<Rightarrow> Inr (output_message response),
             w1\<lparr>calls := calls w1 @ [ConverseCall req2], ext := x2\<rparr>)"
    by (elim exE conjE) (rule that)
  have direct: "fst (generate_message demo_config demo_services (Some (lit ''model''))
          (lit ''What is the MSME subsidy scheme?'') [] [] [] demo_world) =
     Inr (output_message demo_final_response)"
    using h1
    by (simp add: generate_message_def build_content_blocks_def tool_round_trip_def
          dispatch_tool_def get_government_scheme_info_def first_request_def
          demo_world_simps Let_def)
  show ?thesis
    using h1 h4 k d c g direct
    by (simp add: demo_world_def tool_dispatches_append converse_calls_append)
qed

subsection \<open>The history update\<close>

text \<open>
  Nothing up to the reply depends on the synthesis service or the base64 decoder.
\<close>

lemma get_government_scheme_info_tts:
  "get_government_scheme_info cfg (svc\<lparr>tts_post := tts, b64decode := dec\<rparr>) q w =
   get_government_scheme_info cfg svc q w"
  by (simp add: get_government_scheme_info_def cong: prod.case_cong sum.case_cong)

lemma dispatch_tool_tts:
  "dispatch_tool cfg (svc\<lparr>tts_post := tts, b64decode := dec\<rparr>) tool w =
   dispatch_tool cfg svc tool w"
  by (simp add: dispatch_tool_def get_government_scheme_info_tts
        cong: prod.case_cong sum.case_cong option.case_cong)

lemma tool_round_trip_tts:
  "tool_round_trip cfg (svc\<lparr>tts_post := tts, b64decode := dec\<rparr>) model_id msgs tool w =
   tool_round_trip cfg svc model_id msgs tool w"
  by (simp add: tool_round_trip_def dispatch_tool_tts cong: prod.case_cong sum.case_cong)

lemma tool_requests_loop_tts:
  "tool_requests_loop cfg (svc\<lparr>tts_post := tts, b64decode := dec\<rparr>) model_id msgs out bs w =
   tool_requests_loop cfg svc model_id msgs out bs w"
  by (induction bs rule: known_tool_uses.induct) (simp_all add: tool_round_trip_tts)

lemma generate_message_tts:
  "generate_message cfg (svc\<lparr>tts_post := tts, b64decode := dec\<rparr>) model_id t docs imgs h w =
   generate_message cfg svc model_id t docs imgs h w"
  by (simp add: generate_message_def tool_requests_loop_tts
        cong: prod.case_cong sum.case_cong if_cong)

lemma turn_reply_tts:
  "turn_reply cfg (svc\<lparr>tts_post := tts, b64decode := dec\<rparr>) prompt docs imgs s w =
   turn_reply cfg svc prompt docs imgs s w"
  by (simp add: turn_reply_def generate_message_tts cong: prod.case_cong sum.case_cong)

lemma main_turn_history:
  "chat_history (fst (main_turn cfg svc documents images text_input audio_prompt s w)) =
     (if strip (the_prompt text_input audio_prompt) \<noteq> [] \<and>
         documents = last_uploaded_docs s \<and> images = last_uploaded_images s
      then history_after cfg svc documents images (the_prompt text_input audio_prompt) s w
      else chat_history s)"
proof -
  define prompt where "prompt = the_prompt text_input audio_prompt"
  obtain r w1 where t: "turn_reply cfg svc prompt documents images s w = (r, w1)"
    by (cases "turn_reply cfg svc prompt documents images s w")
  show ?thesis
    unfolding prompt_def[symmetric]
    using t strip_nonempty[of prompt]
    by (auto simp: main_turn_def turn_try_def history_after_def Let_def prompt_def[symmetric]
          split: sum.splits exn.splits exn_class.splits)
qed

lemma turn_reply_fails:
  assumes "run (new_client svc (lit ''bedrock-runtime''))
             (show_ui (Markdown (lit ''user'') prompt) w) = (Inr u, w1)"
    and "generate_message cfg svc (BEDROCK_MODEL_ID cfg) prompt documents images
           (chat_history s) w1 = (Inl e, w2)"
  shows "fst (turn_reply cfg svc prompt documents images s w) = Inl e"
  using assms by (simp add: turn_reply_def)

text \<open>
  C5. The history after \<open>main\<close> has handled an input is the old history, unless a turn
  ran and a reply was obtained, and then it is the old history followed by the user's turn
  and the assistant's turn. When \<open>generate_message\<close> raises, whether in validation, in a
  backend call or in the tool path, the history is the old one. The history is the same
  whatever the synthesis service and the decoder of its answer do: a failure to speak the
  reply leaves the two turns appended.
\<close>

theorem turn_history_update:
  "chat_history (fst (main_turn cfg svc documents images text_input audio_prompt s w)) =
     (if strip (the_prompt text_input audio_prompt) \<noteq> [] \<and>
         documents = last_uploaded_docs s \<and> images = last_uploaded_images s
      then history_after cfg svc documents images (the_prompt text_input audio_prompt) s w
      else chat_history s) \<and>
   (\<forall>u w1 e w2.
      run (new_client svc (lit ''bedrock-runtime''))
        (show_ui (Markdown (lit ''user'') (the_prompt text_input audio_prompt)) w) =
        (Inr u, w1) \<and>
      generate_message cfg svc (BEDROCK_MODEL_ID cfg) (the_prompt text_input audio_prompt)
        documents images (chat_history s) w1 = (Inl e, w2) \<longrightarrow>
      chat_history (fst (main_turn cfg svc documents images text_input audio_prompt s w)) =
        chat_history s) \<and>
   (\<forall>tts dec.
      chat_history (fst (main_turn cfg (svc\<lparr>tts_post := tts, b64decode := dec\<rparr>) documents
                           images text_input audio_prompt s w)) =
      chat_history (fst (main_turn cfg svc documents images text_input audio_prompt s w)))"
proof (intro conjI allI impI)
  show "chat_history (fst (main_turn cfg svc documents images text_input audio_prompt s w)) =
     (if strip (the_prompt text_input audio_prompt) \<noteq> [] \<and>
         documents = last_uploaded_docs s \<and> images = last_uploaded_images s
      then history_after cfg svc documents images (the_prompt text_input audio_prompt) s w
      else chat_history s)"
    by (rule main_turn_history)
next
  fix u w1 e w2
  assume a: "run (new_client svc (lit ''bedrock-runtime''))
        (show_ui (Markdown (lit ''user'') (the_prompt text_input audio_prompt)) w) =
        (Inr u, w1) \<and>
      generate_message cfg svc (BEDROCK_MODEL_ID cfg) (the_prompt text_input audio_prompt)
        documents images (chat_history s) w1 = (Inl e, w2)"
  then have "fst (turn_reply cfg svc (the_prompt text_input audio_prompt) documents images
                    s w) = Inl e"
    using turn_reply_fails by blast
  then have "history_after cfg svc documents images (the_prompt text_input audio_prompt) s w =
               chat_history s"
    by (simp add: history_after_def)
  then show "chat_history (fst (main_turn cfg svc documents images text_input audio_prompt
                                  s w)) = chat_history s"
    by (auto simp: main_turn_history)
next
  fix tts dec
  show "chat_history (fst (main_turn cfg (svc\<lparr>tts_post := tts, b64decode := dec\<rparr>) documents
                           images text_input audio_prompt s w)) =
      chat_history (fst (main_turn cfg svc documents images text_input audio_prompt s w))"
    by (simp add: main_turn_history history_after_def turn_reply_tts)
qed

lemma turn_reply_demo:
  "fst (turn_reply demo_config demo_services (lit ''What is the MSME subsidy scheme?'') [] []
          demo_session demo_world) = Inr (lit ''Mudra loans.'')"
  by (simp add: turn_reply_def first_text_def generate_message_def build_content_blocks_def
        tool_round_trip_def dispatch_tool_def get_government_scheme_info_def
        first_request_def demo_world_simps Let_def strip_def is_space_def lit_def)

text \<open>
  With speech enabled and a synthesis service that times out, the turn is appended; with a
  backend that raises a client error, the history stays empty.
\<close>

theorem turn_history_update_witness:
  "enable_tts demo_session \<and>
   chat_history (fst (main_turn demo_config demo_services [] []
      (Some (lit ''  What is the MSME subsidy scheme? '')) None demo_session demo_world)) =
     [\<lparr>turn_role = lit ''user'', turn_text = Some (lit ''What is the MSME subsidy scheme?'')\<rparr>,
      \<lparr>turn_role = lit ''assistant'', turn_text = Some (lit ''Mudra loans.'')\<rparr>] \<and>
   chat_history (fst (main_turn demo_config demo_backend_down [] []
      (Some (lit ''  What is the MSME subsidy scheme? '')) None demo_session demo_world)) = []"
proof -
  have p: "the_prompt (Some (lit ''  What is the MSME subsidy scheme? '')) None =
             lit ''What is the MSME subsidy scheme?''"
    by (simp add: the_prompt_def lit_def strip_def is_space_def)
  have q: "strip (lit ''What is the MSME subsidy scheme?'') \<noteq> []"
    by (simp add: lit_def strip_def is_space_def)
  have a: "run (new_client demo_backend_down (lit ''bedrock-runtime''))
        (show_ui (Markdown (lit ''user'')
           (the_prompt (Some (lit ''  What is the MSME subsidy scheme? '')) None)) demo_world) =
        (Inr (), show_ui (Markdown (lit ''user'') (lit ''What is the MSME subsidy scheme?''))
                   demo_world) \<and>
      generate_message demo_config demo_backend_down (BEDROCK_MODEL_ID demo_config)
        (the_prompt (Some (lit ''  What is the MSME subsidy scheme? '')) None) [] []
        (chat_history demo_session)
        (show_ui (Markdown (lit ''user'') (lit ''What is the MSME subsidy scheme?''))
           demo_world) =
        (Inl (Exn (ClientError (lit ''throttled'')) (lit ''throttled'')),
         note_call (ConverseCall (first_request demo_config (Some (lit ''model'')) []
             [TextBlock (lit ''What is the MSME subsidy scheme?'')]))
           (show_ui (Markdown (lit ''user'') (lit ''What is the MSME subsidy scheme?''))
              demo_world))"
    using q
    by (simp add: p generate_message_def build_content_blocks_def demo_session_def
          demo_world_simps Let_def)
  have d: "last_uploaded_docs demo_session = []" "last_uploaded_images demo_session = []"
    "chat_history demo_session = []" "enable_tts demo_session"
    by (simp_all add: demo_session_def)
  show ?thesis
    using turn_history_update [of demo_config demo_services "[]" "[]"
        "Some (lit ''  What is the MSME subsidy scheme? '')" None demo_session demo_world,
        THEN conjunct1]
      turn_history_update [of demo_config demo_backend_down "[]" "[]"
        "Some (lit ''  What is the MSME subsidy scheme? '')" None demo_session demo_world,
        THEN conjunct2, THEN conjunct1, rule_format, OF a]
    by (simp add: p q turn_reply_demo history_after_def d)
qed

subsection \<open>The temporary audio file\<close>

lemma transcribe_audio_files:
  "transcribe_audio cfg svc p w = (r, w1) \<Longrightarrow> files w1 = files w"
  by (auto simp: transcribe_audio_def run_def Let_def
      split: if_splits option.splits prod.splits sum.splits)

text \<open>
  After the transcription step the temporary file is gone when a transcript was obtained,
  and still there, with the recording in it, when the step ended in the handler.
\<close>

lemma main_transcription_file:
  "files (snd (main_transcription cfg svc p wav w)) p =
     (case fst (main_transcription cfg svc p wav w) of None \<Rightarrow> Some wav | Some t \<Rightarrow> None)"
proof -
  obtain r w1 where
    t: "transcribe_audio cfg svc p (w\<lparr>files := (files w)(p \<mapsto> wav)\<rparr>) = (r, w1)"
    by (cases "transcribe_audio cfg svc p (w\<lparr>files := (files w)(p \<mapsto> wav)\<rparr>)")
  have "files w1 p = Some wav"
    using transcribe_audio_files[OF t] by simp
  then show ?thesis
    using t
    by (auto simp: main_transcription_def transcription_try_def show_ui_def
          split: sum.splits)
qed

text \<open>
  C6 fails on the code. The transcription service answers without a transcript, so
  \<open>transcribe_audio\<close> raises; the handler shows the error and \<open>main\<close> returns, and the
  temporary file is still on disk with the recording in it: \<open>os.unlink\<close> is the last
  statement of the \<open>try\<close> body and is not run when the body raises.
\<close>

theorem main_transcription_leaves_file:
  "main_transcription demo_config demo_services (lit ''/tmp/tmpq3.wav'') [82, 73, 70, 70]
     demo_world =
     (None,
      demo_world\<lparr>files := (files demo_world)(lit ''/tmp/tmpq3.wav'' \<mapsto> [82, 73, 70, 70]),
                 shown := [Error (lit ''Audio transcription failed: '' @
                   lit ''Unexpected error during audio transcription: '' @
                   lit ''Empty transcript received from SARVAM API'')]\<rparr>) \<and>
   files (snd (main_transcription demo_config demo_services (lit ''/tmp/tmpq3.wav'')
                 [82, 73, 70, 70] demo_world)) (lit ''/tmp/tmpq3.wav'') =
     Some [82, 73, 70, 70]"
  by (simp add: main_transcription_def transcription_try_def transcribe_audio_def
        demo_world_simps lit_def)

end
